theory Spec2Isabelle
  imports Complex_Main "HOL-Library.Word"
begin

section \<open>The access proxy worker (\<^verbatim>\<open>src/index.ts\<close>)\<close>

text \<open>
  The worker registers one handler, for POST requests on every path. The handler reads
  the header \<^verbatim>\<open>cf-access-token\<close>, decodes the second dot-separated segment of the token
  to find the user's e-mail address, and forwards the request to the configured AI
  Gateway URL with two headers rewritten.

  The handler is an \<^verbatim>\<open>async\<close> function without module state: it reads its
  request and its bindings, calls the platform (\<^verbatim>\<open>atob\<close>, \<^verbatim>\<open>JSON.parse\<close>,
  \<^verbatim>\<open>JSON.stringify\<close>, \<^verbatim>\<open>Headers\<close>, \<^verbatim>\<open>fetch\<close>, \<^verbatim>\<open>console.error\<close>) and returns a
  response. The model is a function from the platform, the bindings and the request to
  the response together with the list of effects in the order in which they happen.
\<close>

subsection \<open>JavaScript values\<close>

text \<open>
  A JavaScript string is a sequence of 16-bit code units. \<open>js\<close> turns a literal of this
  theory into one, character by character.
\<close>

type_synonym code_unit = "16 word"

type_synonym jsstring = "code_unit list"

definition ch :: "char \<Rightarrow> code_unit" where
  "ch c = of_char c"

definition js :: "string \<Rightarrow> jsstring" where
  "js s = map ch s"

text \<open>A number is a binary64 value; the finite ones are rationals.\<close>

datatype number = Finite rat | Infinity | Neg_Infinity | NaN

text \<open>
  The values \<^verbatim>\<open>JSON.parse\<close> can return, and \<^verbatim>\<open>undefined\<close> for a property that
  is absent. An object lists its own properties, each key once; \<open>map_of\<close> finds
  the value of a key.
\<close>

datatype jsval =
    JUndefined
  | JNull
  | JBool bool
  | JNum number
  | JStr jsstring
  | JArr "jsval list"
  | JObj "(jsstring \<times> jsval) list"

text \<open>
  What a \<^verbatim>\<open>throw\<close> carries: an instance of \<^verbatim>\<open>Error\<close> with its name and its
  message, or any other value.
\<close>

datatype thrown = Error_obj jsstring jsstring | Non_error

fun message :: "thrown \<Rightarrow> jsstring option" where
  "message (Error_obj name msg) = Some msg"
| "message Non_error = None"

text \<open>\<^verbatim>\<open>!v\<close> is \<open>\<not> truthy v\<close>.\<close>

fun truthy :: "jsval \<Rightarrow> bool" where
  "truthy JUndefined = False"
| "truthy JNull = False"
| "truthy (JBool b) = b"
| "truthy (JNum n) = (case n of Finite q \<Rightarrow> q \<noteq> 0 | NaN \<Rightarrow> False | _ \<Rightarrow> True)"
| "truthy (JStr s) = (s \<noteq> [])"
| "truthy (JArr xs) = True"
| "truthy (JObj kvs) = True"

text \<open>
  \<^verbatim>\<open>payload.email\<close>: reading a property of \<^verbatim>\<open>null\<close> or \<^verbatim>\<open>undefined\<close> throws
  a \<^verbatim>\<open>TypeError\<close>; an object yields its own property or \<^verbatim>\<open>undefined\<close>; a
  string, a number, a boolean and an array have no property of that name.
\<close>

fun get_email :: "jsval \<Rightarrow> thrown + jsval" where
  "get_email JUndefined =
     Inl (Error_obj (js ''TypeError'')
            (js ''Cannot read properties of undefined (reading 'email')''))"
| "get_email JNull =
     Inl (Error_obj (js ''TypeError'')
            (js ''Cannot read properties of null (reading 'email')''))"
| "get_email (JObj kvs) =
     Inr (case map_of kvs (js ''email'') of None \<Rightarrow> JUndefined | Some v \<Rightarrow> v)"
| "get_email v = Inr JUndefined"

text \<open>
  \<^verbatim>\<open>s.split(sep)\<close> for a separator of one code unit: the segments between the
  separators, of which there is always at least one.
\<close>

fun split :: "code_unit \<Rightarrow> jsstring \<Rightarrow> jsstring list" where
  "split sep [] = [[]]"
| "split sep (c # cs) =
     (if c = sep then [] # split sep cs
      else (case split sep cs of [] \<Rightarrow> [[c]] | p # ps \<Rightarrow> (c # p) # ps))"

subsection \<open>Headers\<close>

text \<open>
  A \<^verbatim>\<open>Headers\<close> object is a map from lower-cased header names to values: the
  names are matched without regard to case. \<^verbatim>\<open>new Headers(h)\<close> copies, which in
  HOL is the map itself.
\<close>

type_synonym headers = "jsstring \<rightharpoonup> jsstring"

definition to_lower :: "code_unit \<Rightarrow> code_unit" where
  "to_lower c = (if 65 \<le> c \<and> c \<le> 90 then c + 32 else c)"

definition headers_get :: "headers \<Rightarrow> jsstring \<Rightarrow> jsstring option" where
  "headers_get h name = h (map to_lower name)"

text \<open>
  \<^verbatim>\<open>Headers.set(name, value)\<close> after the Fetch standard: the value loses its leading
  and trailing HTTP whitespace (tab, line feed, carriage return, space); a name that
  is not a token, or a value that still holds a NUL, a line feed or a carriage return,
  makes the call throw a \<^verbatim>\<open>TypeError\<close>; otherwise the value replaces what the name
  had. The Workers runtime keeps every other code unit, those above 00FF included.
\<close>

definition http_whitespace :: "code_unit \<Rightarrow> bool" where
  "http_whitespace c \<longleftrightarrow> c = 9 \<or> c = 10 \<or> c = 13 \<or> c = 32"

definition normalize_value :: "jsstring \<Rightarrow> jsstring" where
  "normalize_value v = rev (dropWhile http_whitespace (rev (dropWhile http_whitespace v)))"

definition valid_header_value :: "jsstring \<Rightarrow> bool" where
  "valid_header_value v \<longleftrightarrow> 0 \<notin> set v \<and> 10 \<notin> set v \<and> 13 \<notin> set v"

definition token_char :: "code_unit \<Rightarrow> bool" where
  "token_char c \<longleftrightarrow>
     (48 \<le> c \<and> c \<le> 57) \<or> (65 \<le> c \<and> c \<le> 90) \<or> (97 \<le> c \<and> c \<le> 122) \<or>
     c \<in> set (js ''!#$%&'*+-.^_`|~'')"

definition valid_header_name :: "jsstring \<Rightarrow> bool" where
  "valid_header_name name \<longleftrightarrow> name \<noteq> [] \<and> list_all token_char name"

definition headers_set :: "headers \<Rightarrow> jsstring \<Rightarrow> jsstring \<Rightarrow> thrown + headers" where
  "headers_set h name v =
     (let v = normalize_value v in
      if \<not> valid_header_name name then
        Inl (Error_obj (js ''TypeError'') (js ''Invalid header name.''))
      else if \<not> valid_header_value v then
        Inl (Error_obj (js ''TypeError'') (js ''Invalid header value.''))
      else Inr (h(map to_lower name \<mapsto> v)))"

subsection \<open>Requests, responses and the platform\<close>

text \<open>
  The inbound request. \<open>'b\<close> is the type of body streams (\<^verbatim>\<open>ReadableStream | null\<close>):
  the handler passes a stream on and has no operation that reads one.
\<close>

record 'b request =
  req_method :: jsstring
  url :: jsstring
  raw_headers :: headers
  raw_body :: 'b

text \<open>The second argument of \<^verbatim>\<open>fetch\<close>.\<close>

record 'b request_init =
  init_method :: jsstring
  init_headers :: headers
  init_body :: 'b

text \<open>A \<^verbatim>\<open>Response\<close> of the platform, as \<^verbatim>\<open>fetch\<close> resolves to.\<close>

record 'b response =
  status :: nat
  response_headers :: headers
  response_body :: 'b

text \<open>The environment of the worker (\<^verbatim>\<open>interface Bindings\<close>).\<close>

record bindings =
  CF_AI_GATEWAY_TOKEN :: jsstring
  CF_AI_GATEWAY_URL :: jsstring

text \<open>
  The platform functions the handler calls and that this theory does not fix. Each of
  \<^verbatim>\<open>atob\<close>, \<^verbatim>\<open>JSON.parse\<close> and \<^verbatim>\<open>fetch\<close> returns or throws (\<open>Inl\<close>);
  \<^verbatim>\<open>fetch\<close> throws when the call cannot be made, and returns the upstream's response
  whatever its status. \<^verbatim>\<open>JSON.stringify\<close> of an object is a string.
\<close>

record 'b runtime =
  atob :: "jsstring \<Rightarrow> thrown + jsstring"
  JSON_parse :: "jsstring \<Rightarrow> thrown + jsval"
  JSON_stringify :: "jsval \<Rightarrow> jsstring"
  fetch :: "jsstring \<Rightarrow> 'b request_init \<Rightarrow> thrown + 'b response"

text \<open>The effects of a run: a call of \<^verbatim>\<open>fetch\<close>, a line on \<^verbatim>\<open>console.error\<close>.\<close>

datatype log_arg = Str jsstring | Thrown thrown

datatype 'b event = Fetch jsstring "'b request_init" | Console_error "log_arg list"

text \<open>
  What the handler returns: \<^verbatim>\<open>c.json(object, { status })\<close>, or the response of the
  upstream as \<^verbatim>\<open>fetch\<close> resolved it.
\<close>

datatype 'b reply = Json jsval nat | Proxied "'b response"

subsection \<open>The handler\<close>

text \<open>\<^verbatim>\<open>c.req.header(name)\<close>, for a name that is a valid header name.\<close>

definition header :: "('b, 'z) request_scheme \<Rightarrow> jsstring \<Rightarrow> jsstring option" where
  "header req name = headers_get (raw_headers req) name"

text \<open>
  The body of the first \<^verbatim>\<open>try\<close> block: the value of \<^verbatim>\<open>userEmail\<close>, or what was
  thrown.
\<close>

definition decode_email :: "('b, 'z) runtime_scheme \<Rightarrow> jsstring \<Rightarrow> thrown + jsval" where
  "decode_email rt token =
     (let jwtParts = split (ch CHR ''.'') token in
      if length jwtParts < 2 then Inl (Error_obj (js ''Error'') (js ''Invalid JWT structure''))
      else
        (case atob rt (jwtParts ! 1) of
           Inl e \<Rightarrow> Inl e
         | Inr decoded \<Rightarrow>
             (case JSON_parse rt decoded of
                Inl e \<Rightarrow> Inl e
              | Inr payload \<Rightarrow>
                  (case get_email payload of
                     Inl e \<Rightarrow> Inl e
                   | Inr userEmail \<Rightarrow>
                       if \<not> truthy userEmail
                       then Inl (Error_obj (js ''Error'') (js ''Email not found in token payload''))
                       else Inr userEmail))))"

text \<open>The three responses the handler builds itself.\<close>

definition missing_token :: "'b reply" where
  "missing_token = Json (JObj [(js ''error'', JStr (js ''Missing authentication token''))]) 401"

definition invalid_token :: "'b reply" where
  "invalid_token = Json (JObj [(js ''error'', JStr (js ''Invalid or malformed token''))]) 401"

definition upstream_failed :: "'b reply" where
  "upstream_failed =
     Json (JObj [(js ''error'', JStr (js ''Failed to connect to the upstream service''))]) 502"

text \<open>
  The headers of the outbound call: the inbound ones, then the two calls of
  \<^verbatim>\<open>forwardHeaders.set\<close>, each of which may throw. When the first throws,
  \<^verbatim>\<open>JSON.stringify\<close> is not reached.
\<close>

definition forward_headers ::
  "('b, 'z) runtime_scheme \<Rightarrow> bindings \<Rightarrow> headers \<Rightarrow> jsval \<Rightarrow> thrown + headers" where
  "forward_headers rt env inbound userEmail =
     (let forwardHeaders = inbound in
      case headers_set forwardHeaders (js ''Authorization'')
             (js ''Bearer '' @ CF_AI_GATEWAY_TOKEN env) of
        Inl error \<Rightarrow> Inl error
      | Inr forwardHeaders \<Rightarrow>
          headers_set forwardHeaders (js ''cf-aig-metadata'')
            (JSON_stringify rt (JObj [(js ''user_id'', userEmail)])))"

text \<open>
  The body of the second \<^verbatim>\<open>try\<close> block: what \<^verbatim>\<open>fetch\<close> resolved to, or what was
  thrown by \<^verbatim>\<open>Headers.set\<close> or by \<^verbatim>\<open>fetch\<close>, with the calls of \<^verbatim>\<open>fetch\<close> made.
\<close>

definition proxy_request ::
  "'b runtime \<Rightarrow> bindings \<Rightarrow> 'b request \<Rightarrow> jsval \<Rightarrow> (thrown + 'b response) \<times> 'b event list" where
  "proxy_request rt env req userEmail =
     (case forward_headers rt env (raw_headers req) userEmail of
        Inl error \<Rightarrow> (Inl error, [])
      | Inr forwardHeaders \<Rightarrow>
          (let init = \<lparr> init_method = req_method req,
                        init_headers = forwardHeaders,
                        init_body = raw_body req \<rparr>
           in (fetch rt (CF_AI_GATEWAY_URL env) init, [Fetch (CF_AI_GATEWAY_URL env) init])))"

text \<open>
  The handler of \<^verbatim>\<open>app.post("*", ...)\<close>. \<^verbatim>\<open>!token\<close> holds for a header that is
  absent and for one whose value is the empty string. Each \<^verbatim>\<open>catch\<close> logs and
  answers.
\<close>

definition handler :: "'b runtime \<Rightarrow> bindings \<Rightarrow> 'b request \<Rightarrow> 'b reply \<times> 'b event list" where
  "handler rt env req =
     (case header req (js ''cf-access-token'') of
        None \<Rightarrow> (missing_token, [])
      | Some token \<Rightarrow>
          if token = [] then (missing_token, [])
          else
            (case decode_email rt token of
               Inl e \<Rightarrow>
                 (let errorMessage =
                        (case message e of Some m \<Rightarrow> m | None \<Rightarrow> js ''Unknown error'')
                  in (invalid_token,
                      [Console_error [Str (js ''Failed to decode token:''), Str errorMessage]]))
             | Inr userEmail \<Rightarrow>
                 (case proxy_request rt env req userEmail of
                    (Inr proxyResponse, calls) \<Rightarrow> (Proxied proxyResponse, calls)
                  | (Inl error, calls) \<Rightarrow>
                      (upstream_failed,
                       calls @
                       [Console_error
                          [Str (js ''Failed to proxy request to AI Gateway:''), Thrown error]]))))"

section \<open>A platform\<close>

text \<open>
  The theorems below hold for every platform. To evaluate the handler on concrete
  requests, this section gives one: \<^verbatim>\<open>atob\<close> after the forgiving-base64 decoding of
  the WHATWG Infra standard, \<^verbatim>\<open>JSON.parse\<close> and \<^verbatim>\<open>JSON.stringify\<close> after ECMA-262,
  numbers being binary64 values.
\<close>

subsection \<open>atob\<close>

definition ascii_whitespace :: "code_unit \<Rightarrow> bool" where
  "ascii_whitespace c \<longleftrightarrow> c = 9 \<or> c = 10 \<or> c = 12 \<or> c = 13 \<or> c = 32"

definition sextet :: "code_unit \<Rightarrow> nat option" where
  "sextet c =
     (let n = unat c in
      if 65 \<le> n \<and> n \<le> 90 then Some (n - 65)
      else if 97 \<le> n \<and> n \<le> 122 then Some (n - 71)
      else if 48 \<le> n \<and> n \<le> 57 then Some (n + 4)
      else if n = 43 then Some 62
      else if n = 47 then Some 63
      else None)"

fun sextets :: "jsstring \<Rightarrow> nat list option" where
  "sextets [] = Some []"
| "sextets (c # cs) =
     (case sextet c of
        None \<Rightarrow> None
      | Some v \<Rightarrow> (case sextets cs of None \<Rightarrow> None | Some vs \<Rightarrow> Some (v # vs)))"

text \<open>Four sextets give three bytes; three give two, two give one, the spare bits dropped.\<close>

fun octets :: "nat list \<Rightarrow> jsstring" where
  "octets (a # b # c # d # rest) =
     of_nat (a * 4 + b div 16) # of_nat (b mod 16 * 16 + c div 4) # of_nat (c mod 4 * 64 + d)
       # octets rest"
| "octets [a, b, c] = [of_nat (a * 4 + b div 16), of_nat (b mod 16 * 16 + c div 4)]"
| "octets [a, b] = [of_nat (a * 4 + b div 16)]"
| "octets _ = []"

definition strip_padding :: "jsstring \<Rightarrow> jsstring" where
  "strip_padding data =
     (if length data mod 4 \<noteq> 0 then data
      else if 2 \<le> length data \<and> drop (length data - 2) data = js ''=='' then
        take (length data - 2) data
      else if 1 \<le> length data \<and> drop (length data - 1) data = js ''='' then
        take (length data - 1) data
      else data)"

definition forgiving_base64_decode :: "jsstring \<Rightarrow> jsstring option" where
  "forgiving_base64_decode data =
     (let data = filter (\<lambda>c. \<not> ascii_whitespace c) data;
          data = strip_padding data
      in if length data mod 4 = 1 then None
         else map_option octets (sextets data))"

definition atob_impl :: "jsstring \<Rightarrow> thrown + jsstring" where
  "atob_impl data =
     (case forgiving_base64_decode data of
        None \<Rightarrow>
          Inl (Error_obj (js ''InvalidCharacterError'')
                 (js ''The string to be decoded is not correctly encoded.''))
      | Some s \<Rightarrow> Inr s)"

subsection \<open>Numbers\<close>

function ndigits :: "int \<Rightarrow> int \<Rightarrow> int" where
  "ndigits b n = (if n \<le> 0 \<or> b < 2 then 0 else 1 + ndigits b (n div b))"
  by pat_completeness auto
termination
  by (relation "measure (\<lambda>(b, n). nat n)") (auto intro: int_div_less_self)

text \<open>\<open>floor_log b q\<close> is the integer \<open>e\<close> with \<open>b ^ e \<le> q < b ^ (e + 1)\<close>, for \<open>0 < q\<close>.\<close>

definition floor_log :: "int \<Rightarrow> rat \<Rightarrow> int" where
  "floor_log b q =
     (let (n, d) = quotient_of q;
          k = ndigits b n - ndigits b d
      in if of_int b powi k \<le> q then k else k - 1)"

definition round_half_even :: "rat \<Rightarrow> int" where
  "round_half_even q =
     (let f = \<lfloor>q\<rfloor>; r = q - of_int f
      in if r < 1 / 2 then f else if 1 / 2 < r then f + 1 else if even f then f else f + 1)"

text \<open>The binary64 value nearest to a rational, ties to even.\<close>

definition binary64 :: "rat \<Rightarrow> number" where
  "binary64 q =
     (if q = 0 then Finite 0
      else
        let u = max (floor_log 2 \<bar>q\<bar> - 52) (- 1074);
            v = of_int (round_half_even (\<bar>q\<bar> / 2 powi u)) * 2 powi u
        in if 2 ^ 1024 \<le> v then (if q < 0 then Neg_Infinity else Infinity)
           else Finite (if q < 0 then - v else v))"

function digits_of :: "int \<Rightarrow> jsstring" where
  "digits_of n =
     (if n < 10 then [of_int (48 + n)] else digits_of (n div 10) @ [of_int (48 + n mod 10)])"
  by pat_completeness auto
termination
  by (relation "measure nat") (auto intro: int_div_less_self)

text \<open>
  \<open>shortest fuel k q\<close>: the digits \<open>s\<close> and the exponent \<open>n\<close> of \<^verbatim>\<open>Number::toString\<close> for
  a binary64 value \<open>0 < q\<close>: the least \<open>k\<close> for which \<open>s * 10 ^ (n - k)\<close> with \<open>k\<close> digits
  rounds to \<open>q\<close>, and the \<open>s\<close> nearest to \<open>q\<close>. Seventeen digits always suffice.
\<close>

fun shortest :: "nat \<Rightarrow> int \<Rightarrow> rat \<Rightarrow> int \<times> int" where
  "shortest 0 k q = (0, 0)"
| "shortest (Suc fuel) k q =
     (let n = floor_log 10 q + 1;
          scale = 10 powi (n - k);
          lo = \<lfloor>q / scale\<rfloor>;
          ok = (\<lambda>c. binary64 (of_int c * scale) = Finite q);
          pick = (\<lambda>c. if c = 10 ^ nat k then (10 ^ nat (k - 1), n + 1) else (c, n))
      in if ok lo \<and> ok (lo + 1) then
           (let dl = q - of_int lo * scale; dh = of_int (lo + 1) * scale - q
            in if dl < dh \<or> (dl = dh \<and> even lo) then pick lo else pick (lo + 1))
         else if ok lo then pick lo
         else if ok (lo + 1) then pick (lo + 1)
         else shortest fuel (k + 1) q)"

definition number_to_string :: "rat \<Rightarrow> jsstring" where
  "number_to_string q =
     (if q = 0 then js ''0''
      else
        let (s, n) = shortest 17 1 \<bar>q\<bar>;
            ds = digits_of s;
            k = int (length ds);
            sign = (if q < 0 then js ''-'' else []);
            ex = (\<lambda>e. (if e < 0 then js ''e-'' else js ''e+'') @ digits_of \<bar>e\<bar>)
        in sign @
           (if k \<le> n \<and> n \<le> 21 then ds @ replicate (nat (n - k)) (ch CHR ''0'')
            else if 0 < n \<and> n \<le> 21 then take (nat n) ds @ js ''.'' @ drop (nat n) ds
            else if - 6 < n \<and> n \<le> 0 then js ''0.'' @ replicate (nat (- n)) (ch CHR ''0'') @ ds
            else if k = 1 then ds @ ex (n - 1)
            else take 1 ds @ js ''.'' @ drop 1 ds @ ex (n - 1)))"

subsection \<open>JSON.parse\<close>

definition json_whitespace :: "code_unit \<Rightarrow> bool" where
  "json_whitespace c \<longleftrightarrow> c = 9 \<or> c = 10 \<or> c = 13 \<or> c = 32"

definition skip_ws :: "jsstring \<Rightarrow> jsstring" where
  "skip_ws s = dropWhile json_whitespace s"

definition is_digit :: "code_unit \<Rightarrow> bool" where
  "is_digit c \<longleftrightarrow> 48 \<le> c \<and> c \<le> 57"

definition decimal :: "jsstring \<Rightarrow> int" where
  "decimal ds = foldl (\<lambda>a c. 10 * a + (uint c - 48)) 0 ds"

definition hex_val :: "code_unit \<Rightarrow> nat option" where
  "hex_val c =
     (let n = unat c in
      if 48 \<le> n \<and> n \<le> 57 then Some (n - 48)
      else if 65 \<le> n \<and> n \<le> 70 then Some (n - 55)
      else if 97 \<le> n \<and> n \<le> 102 then Some (n - 87)
      else None)"

definition hex4 :: "code_unit \<Rightarrow> code_unit \<Rightarrow> code_unit \<Rightarrow> code_unit \<Rightarrow> code_unit option" where
  "hex4 a b c d =
     (case (hex_val a, hex_val b, hex_val c, hex_val d) of
        (Some w, Some x, Some y, Some z) \<Rightarrow> Some (of_nat (((w * 16 + x) * 16 + y) * 16 + z))
      | _ \<Rightarrow> None)"

definition escape_char :: "code_unit \<Rightarrow> code_unit option" where
  "escape_char e =
     (if e = 0x22 then Some 0x22
      else if e = 0x5C then Some 0x5C
      else if e = ch CHR ''/'' then Some (ch CHR ''/'')
      else if e = ch CHR ''b'' then Some 0x08
      else if e = ch CHR ''f'' then Some 0x0C
      else if e = ch CHR ''n'' then Some 0x0A
      else if e = ch CHR ''r'' then Some 0x0D
      else if e = ch CHR ''t'' then Some 0x09
      else None)"

definition cons_char ::
  "code_unit \<Rightarrow> (jsstring \<times> jsstring) option \<Rightarrow> (jsstring \<times> jsstring) option" where
  "cons_char c r = map_option (\<lambda>(str, rest). (c # str, rest)) r"

text \<open>
  The code units of a string literal after its opening quote, and the rest of the
  text. A \<^verbatim>\<open>u\<close> escape gives the code unit of its four hexadecimal digits.
\<close>

fun parse_chars :: "jsstring \<Rightarrow> (jsstring \<times> jsstring) option" where
  "parse_chars [] = None"
| "parse_chars (c # cs) =
     (if c = 0x22 then Some ([], cs)
      else if c = 0x5C then
        (case cs of
           [] \<Rightarrow> None
         | e # r \<Rightarrow>
             if e = ch CHR ''u'' then
               (case r of
                  h1 # h2 # h3 # h4 # r' \<Rightarrow>
                    (case hex4 h1 h2 h3 h4 of
                       None \<Rightarrow> None
                     | Some u \<Rightarrow> cons_char u (parse_chars r'))
                | _ \<Rightarrow> None)
             else
               (case escape_char e of
                  None \<Rightarrow> None
                | Some u \<Rightarrow> cons_char u (parse_chars r)))
      else if c < 32 then None
      else cons_char c (parse_chars cs))"

definition parse_number :: "jsstring \<Rightarrow> (number \<times> jsstring) option" where
  "parse_number s =
     (let neg = (take 1 s = js ''-'');
          s1 = (if neg then drop 1 s else s);
          ip = takeWhile is_digit s1;
          s2 = dropWhile is_digit s1;
          has_frac = (take 1 s2 = js ''.'');
          fp = (if has_frac then takeWhile is_digit (drop 1 s2) else []);
          s3 = (if has_frac then dropWhile is_digit (drop 1 s2) else s2);
          has_exp = (take 1 s3 = js ''e'' \<or> take 1 s3 = js ''E'');
          s4 = drop 1 s3;
          eneg = (take 1 s4 = js ''-'');
          s5 = (if take 1 s4 = js ''-'' \<or> take 1 s4 = js ''+'' then drop 1 s4 else s4);
          ep = (if has_exp then takeWhile is_digit s5 else []);
          s6 = (if has_exp then dropWhile is_digit s5 else s3);
          ex = (if eneg then - decimal ep else decimal ep);
          q = of_int (decimal (ip @ fp)) * 10 powi (ex - int (length fp))
      in if ip = [] \<or> (1 < length ip \<and> take 1 ip = js ''0'') \<or> (has_frac \<and> fp = [])
            \<or> (has_exp \<and> ep = [])
         then None
         else Some (binary64 (if neg then - q else q), s6))"

text \<open>
  \<^verbatim>\<open>CreateDataProperty\<close> on an ordinary object: a key that is present keeps its place
  and takes the new value; a new key that is an array index goes among the array
  indices, which come first in ascending order; any other new key goes last.
\<close>

definition is_array_index :: "jsstring \<Rightarrow> bool" where
  "is_array_index k \<longleftrightarrow>
     k \<noteq> [] \<and> list_all is_digit k \<and> (k = js ''0'' \<or> take 1 k \<noteq> js ''0'') \<and>
     decimal k < 2 ^ 32 - 1"

fun insert_index ::
  "jsstring \<Rightarrow> jsval \<Rightarrow> (jsstring \<times> jsval) list \<Rightarrow> (jsstring \<times> jsval) list" where
  "insert_index k v [] = [(k, v)]"
| "insert_index k v ((k', v') # rest) =
     (if is_array_index k' \<and> decimal k' < decimal k then (k', v') # insert_index k v rest
      else (k, v) # (k', v') # rest)"

definition create_data_property ::
  "(jsstring \<times> jsval) list \<Rightarrow> jsstring \<Rightarrow> jsval \<Rightarrow> (jsstring \<times> jsval) list" where
  "create_data_property obj k v =
     (if k \<in> fst ` set obj then map (\<lambda>(k', v'). if k' = k then (k', v) else (k', v')) obj
      else if is_array_index k then insert_index k v obj
      else obj @ [(k, v)])"

text \<open>
  The grammar of JSON values. The first argument bounds the number of nested calls;
  \<open>JSON_parse_impl\<close> starts with more than a text of that length can use.
\<close>

fun parse_value :: "nat \<Rightarrow> jsstring \<Rightarrow> (jsval \<times> jsstring) option"
  and parse_elements :: "nat \<Rightarrow> jsval list \<Rightarrow> jsstring \<Rightarrow> (jsval \<times> jsstring) option"
  and parse_members ::
    "nat \<Rightarrow> (jsstring \<times> jsval) list \<Rightarrow> jsstring \<Rightarrow> (jsval \<times> jsstring) option"
where
  "parse_value 0 s = None"
| "parse_value (Suc n) s =
     (case skip_ws s of
        [] \<Rightarrow> None
      | c # cs \<Rightarrow>
          if c = ch CHR ''{'' then
            (if take 1 (skip_ws cs) = js ''}'' then Some (JObj [], drop 1 (skip_ws cs))
             else parse_members n [] cs)
          else if c = ch CHR ''['' then
            (if take 1 (skip_ws cs) = js '']'' then Some (JArr [], drop 1 (skip_ws cs))
             else parse_elements n [] cs)
          else if c = 0x22 then map_option (\<lambda>(str, r). (JStr str, r)) (parse_chars cs)
          else if c = ch CHR ''-'' \<or> is_digit c then
            map_option (\<lambda>(num, r). (JNum num, r)) (parse_number (c # cs))
          else if take 4 (c # cs) = js ''true'' then Some (JBool True, drop 4 (c # cs))
          else if take 5 (c # cs) = js ''false'' then Some (JBool False, drop 5 (c # cs))
          else if take 4 (c # cs) = js ''null'' then Some (JNull, drop 4 (c # cs))
          else None)"
| "parse_elements 0 acc s = None"
| "parse_elements (Suc n) acc s =
     (case parse_value n s of
        None \<Rightarrow> None
      | Some (v, r) \<Rightarrow>
          if take 1 (skip_ws r) = js '','' then parse_elements n (acc @ [v]) (drop 1 (skip_ws r))
          else if take 1 (skip_ws r) = js '']'' then Some (JArr (acc @ [v]), drop 1 (skip_ws r))
          else None)"
| "parse_members 0 acc s = None"
| "parse_members (Suc n) acc s =
     (if take 1 (skip_ws s) \<noteq> [0x22] then None
      else
        (case parse_chars (drop 1 (skip_ws s)) of
           None \<Rightarrow> None
         | Some (k, r) \<Rightarrow>
             if take 1 (skip_ws r) \<noteq> js '':'' then None
             else
               (case parse_value n (drop 1 (skip_ws r)) of
                  None \<Rightarrow> None
                | Some (v, r') \<Rightarrow>
                    if take 1 (skip_ws r') = js '','' then
                      parse_members n (create_data_property acc k v) (drop 1 (skip_ws r'))
                    else if take 1 (skip_ws r') = js ''}'' then
                      Some (JObj (create_data_property acc k v), drop 1 (skip_ws r'))
                    else None)))"

definition syntax_error :: thrown where
  "syntax_error = Error_obj (js ''SyntaxError'') (js ''Unexpected token in JSON'')"

definition JSON_parse_impl :: "jsstring \<Rightarrow> thrown + jsval" where
  "JSON_parse_impl text =
     (case parse_value (2 * length text + 2) text of
        None \<Rightarrow> Inl syntax_error
      | Some (v, rest) \<Rightarrow> if skip_ws rest = [] then Inr v else Inl syntax_error)"

subsection \<open>JSON.stringify\<close>

definition hex_digit :: "nat \<Rightarrow> code_unit" where
  "hex_digit n = (if n < 10 then of_nat (48 + n) else of_nat (87 + n))"

text \<open>The escape of a code unit: a backslash, \<^verbatim>\<open>u\<close> and four lower-case hexadecimal digits.\<close>

definition unicode_escape :: "code_unit \<Rightarrow> jsstring" where
  "unicode_escape c =
     (let n = unat c in
      [0x5C, ch CHR ''u'', hex_digit (n div 4096), hex_digit (n div 256 mod 16),
       hex_digit (n div 16 mod 16), hex_digit (n mod 16)])"

definition quote_char :: "code_unit \<Rightarrow> jsstring" where
  "quote_char c =
     (if c = 0x22 then [0x5C, 0x22]
      else if c = 0x5C then [0x5C, 0x5C]
      else if c = 8 then [0x5C, ch CHR ''b'']
      else if c = 12 then [0x5C, ch CHR ''f'']
      else if c = 10 then [0x5C, ch CHR ''n'']
      else if c = 13 then [0x5C, ch CHR ''r'']
      else if c = 9 then [0x5C, ch CHR ''t'']
      else if c < 32 then unicode_escape c
      else [c])"

definition high_surrogate :: "code_unit \<Rightarrow> bool" where
  "high_surrogate c \<longleftrightarrow> 0xD800 \<le> c \<and> c \<le> 0xDBFF"

definition low_surrogate :: "code_unit \<Rightarrow> bool" where
  "low_surrogate c \<longleftrightarrow> 0xDC00 \<le> c \<and> c \<le> 0xDFFF"

text \<open>
  \<^verbatim>\<open>QuoteJSONString\<close> without the quotes: a surrogate pair stays as it is, a surrogate
  alone is escaped.
\<close>

fun quote_units :: "jsstring \<Rightarrow> jsstring" where
  "quote_units [] = []"
| "quote_units [c] =
     (if high_surrogate c \<or> low_surrogate c then unicode_escape c else quote_char c)"
| "quote_units (c # d # ds) =
     (if high_surrogate c \<and> low_surrogate d then c # d # quote_units ds
      else if high_surrogate c \<or> low_surrogate c then unicode_escape c @ quote_units (d # ds)
      else quote_char c @ quote_units (d # ds))"

definition quote :: "jsstring \<Rightarrow> jsstring" where
  "quote s = [0x22] @ quote_units s @ [0x22]"

fun join :: "jsstring \<Rightarrow> jsstring list \<Rightarrow> jsstring" where
  "join sep [] = []"
| "join sep [x] = x"
| "join sep (x # y # ys) = x @ sep @ join sep (y # ys)"

text \<open>
  \<^verbatim>\<open>SerializeJSONProperty\<close> without replacer and indentation: \<open>None\<close> is
  \<^verbatim>\<open>undefined\<close>. In an array \<^verbatim>\<open>undefined\<close> is written \<^verbatim>\<open>null\<close>; in an object the
  property is left out.
\<close>

fun serialize :: "jsval \<Rightarrow> jsstring option"
  and serialize_elements :: "jsval list \<Rightarrow> jsstring list"
  and serialize_properties :: "(jsstring \<times> jsval) list \<Rightarrow> jsstring list"
where
  "serialize JUndefined = None"
| "serialize JNull = Some (js ''null'')"
| "serialize (JBool b) = Some (if b then js ''true'' else js ''false'')"
| "serialize (JNum n) =
     Some (case n of Finite q \<Rightarrow> number_to_string q | _ \<Rightarrow> js ''null'')"
| "serialize (JStr s) = Some (quote s)"
| "serialize (JArr xs) = Some (js ''['' @ join (js '','') (serialize_elements xs) @ js '']'')"
| "serialize (JObj kvs) =
     Some (js ''{'' @ join (js '','') (serialize_properties kvs) @ js ''}'')"
| "serialize_elements [] = []"
| "serialize_elements (x # xs) =
     (case serialize x of None \<Rightarrow> js ''null'' | Some t \<Rightarrow> t) # serialize_elements xs"
| "serialize_properties [] = []"
| "serialize_properties ((k, v) # kvs) =
     (case serialize v of None \<Rightarrow> [] | Some t \<Rightarrow> [quote k @ js '':'' @ t]) @
     serialize_properties kvs"

text \<open>
  \<^verbatim>\<open>JSON.stringify\<close> of an object, as the handler calls it, is always a string. Of
  \<^verbatim>\<open>undefined\<close> it is \<^verbatim>\<open>undefined\<close>, which a \<^verbatim>\<open>Headers\<close> object would store as the
  string \<^verbatim>\<open>undefined\<close>.
\<close>

definition JSON_stringify_impl :: "jsval \<Rightarrow> jsstring" where
  "JSON_stringify_impl v = (case serialize v of None \<Rightarrow> js ''undefined'' | Some t \<Rightarrow> t)"

section \<open>Observations\<close>

text \<open>
  The network calls among the effects of a run, the number of them that go to a given
  URL, and the status the caller sees.
\<close>

fun fetch_calls :: "'b event list \<Rightarrow> (jsstring \<times> 'b request_init) list" where
  "fetch_calls [] = []"
| "fetch_calls (Fetch u init # es) = (u, init) # fetch_calls es"
| "fetch_calls (Console_error args # es) = fetch_calls es"

definition calls_to :: "jsstring \<Rightarrow> 'b event list \<Rightarrow> nat" where
  "calls_to u es = count_list (map fst (fetch_calls es)) u"

fun reply_status :: "'b reply \<Rightarrow> nat" where
  "reply_status (Json body st) = st"
| "reply_status (Proxied r) = status r"

text \<open>
  The two values the handler gives to \<^verbatim>\<open>forwardHeaders.set\<close>, as a \<^verbatim>\<open>Headers\<close> object
  stores them, and the condition under which it stores both.
\<close>

definition authorization_value :: "bindings \<Rightarrow> jsstring" where
  "authorization_value env = normalize_value (js ''Bearer '' @ CF_AI_GATEWAY_TOKEN env)"

definition metadata_value :: "('b, 'z) runtime_scheme \<Rightarrow> jsval \<Rightarrow> jsstring" where
  "metadata_value rt userEmail =
     normalize_value (JSON_stringify rt (JObj [(js ''user_id'', userEmail)]))"

definition outbound_ok :: "('b, 'z) runtime_scheme \<Rightarrow> bindings \<Rightarrow> jsval \<Rightarrow> bool" where
  "outbound_ok rt env userEmail \<longleftrightarrow>
     valid_header_value (authorization_value env) \<and>
     valid_header_value (metadata_value rt userEmail)"

text \<open>The \<^verbatim>\<open>init\<close> argument of the outbound call for a decoded \<^verbatim>\<open>userEmail\<close>.\<close>

definition proxy_init :: "'b runtime \<Rightarrow> bindings \<Rightarrow> 'b request \<Rightarrow> jsval \<Rightarrow> 'b request_init" where
  "proxy_init rt env req userEmail =
     \<lparr> init_method = req_method req,
       init_headers =
         (raw_headers req)
           (js ''authorization'' \<mapsto> authorization_value env,
            js ''cf-aig-metadata'' \<mapsto> metadata_value rt userEmail),
       init_body = raw_body req \<rparr>"

text \<open>
  The identity that the first \<^verbatim>\<open>try\<close> block finds, in the words of the
  specification: the token has a dot, its second dot-separated segment base64-decodes
  to the text of a JSON object, and that object has a truthy \<^verbatim>\<open>email\<close>, which is
  the identity.
\<close>

definition payload_email :: "('b, 'z) runtime_scheme \<Rightarrow> jsstring \<Rightarrow> jsval option" where
  "payload_email rt token =
     (if ch CHR ''.'' \<notin> set token then None
      else
        (case atob rt (split (ch CHR ''.'') token ! 1) of
           Inl e \<Rightarrow> None
         | Inr decoded \<Rightarrow>
             (case JSON_parse rt decoded of
                Inr (JObj kvs) \<Rightarrow>
                  (case map_of kvs (js ''email'') of
                     None \<Rightarrow> None
                   | Some v \<Rightarrow> if truthy v then Some v else None)
              | _ \<Rightarrow> None)))"

text \<open>
  The acceptance rule in the words of the specification: the signature of the token is
  checked against every key of the current key set, and the token is accepted when at
  least one key matches. \<open>matches\<close> stands for the verification primitive, which the
  specification takes as given.
\<close>

definition spec_signature_accepted ::
  "('k \<Rightarrow> jsstring \<Rightarrow> bool) \<Rightarrow> 'k list \<Rightarrow> jsstring \<Rightarrow> bool" where
  "spec_signature_accepted matches keys token = list_ex (\<lambda>key. matches key token) keys"

text \<open>
  The key-set cache in the words of the specification (section 4.1): an entry holds a
  key set and its expiry; \<open>get\<close> returns the keys of an entry that has not expired with
  no external call, and otherwise fetches the key set and stores it with the expiry
  \<open>now + TTL\<close>, where the TTL is one hour. \<open>spec_cache_get cache now fetched\<close> is the
  key set returned, the cache afterwards and the number of external calls, when the
  key-set endpoint answers \<open>fetched\<close>. Times are in milliseconds.
\<close>

record 'k cache_entry =
  keys :: "'k list"
  expiresAt :: nat



section \<open>Concrete requests\<close>

text \<open>
  The platform of the previous section with a given \<^verbatim>\<open>fetch\<close>; bindings, one pair with
  a well-formed secret and two with a line feed and a carriage return inside the
  secret; networks on which only the upstream answers, on which the upstream answers
  500, on which every call fails, and on which every endpoint answers; and the
  key-set endpoint of an identity provider, which the handler never names.
\<close>

definition platform :: "(jsstring \<Rightarrow> 'b request_init \<Rightarrow> thrown + 'b response) \<Rightarrow> 'b runtime" where
  "platform f =
     \<lparr> atob = atob_impl, JSON_parse = JSON_parse_impl, JSON_stringify = JSON_stringify_impl,
       fetch = f \<rparr>"

definition demo_env :: bindings where
  "demo_env =
     \<lparr> CF_AI_GATEWAY_TOKEN = js ''s3cret'',
       CF_AI_GATEWAY_URL = js ''https://gateway.ai.cloudflare.com/v1/acct/gw/workers-ai/'' \<rparr>"

definition line_feed_env :: bindings where
  "line_feed_env = demo_env \<lparr> CF_AI_GATEWAY_TOKEN := js ''s3'' @ [10] @ js ''cret'' \<rparr>"

definition carriage_return_env :: bindings where
  "carriage_return_env = demo_env \<lparr> CF_AI_GATEWAY_TOKEN := js ''s3'' @ [13] @ js ''cret'' \<rparr>"

definition ok_response :: "jsstring response" where
  \<open>ok_response =
     \<lparr> status = 200,
       response_headers = [js ''content-type'' \<mapsto> js ''application/json''],
       response_body = js ''{"result":"ok"}'' \<rparr>\<close>

definition error_response :: "jsstring response" where
  \<open>error_response =
     \<lparr> status = 500, response_headers = [js ''content-type'' \<mapsto> js ''text/plain''],
       response_body = js ''upstream exploded'' \<rparr>\<close>

definition network_error :: thrown where
  "network_error = Error_obj (js ''TypeError'') (js ''fetch failed'')"

definition only_gateway_up :: "jsstring \<Rightarrow> jsstring request_init \<Rightarrow> thrown + jsstring response" where
  "only_gateway_up u init =
     (if u = CF_AI_GATEWAY_URL demo_env then Inr ok_response else Inl network_error)"

definition gateway_errors :: "jsstring \<Rightarrow> jsstring request_init \<Rightarrow> thrown + jsstring response" where
  "gateway_errors u init = Inr error_response"

definition network_down :: "jsstring \<Rightarrow> jsstring request_init \<Rightarrow> thrown + jsstring response" where
  "network_down u init = Inl network_error"

definition all_up :: "jsstring \<Rightarrow> jsstring request_init \<Rightarrow> thrown + jsstring response" where
  "all_up u init = Inr ok_response"

definition certs_url :: jsstring where
  "certs_url = js ''https://team.cloudflareaccess.com/cdn-cgi/access/certs''"

definition get_init :: "jsstring request_init" where
  "get_init = \<lparr> init_method = js ''GET'', init_headers = Map.empty, init_body = [] \<rparr>"

text \<open>
  Requests: a POST with given headers; one with a token whose payload is
  \<^verbatim>\<open>{"email":"alice@example.com"}\<close>; the same with another signature segment; one
  whose token has the header \<^verbatim>\<open>{"alg":"none"}\<close> and an empty signature segment; one
  whose payload is \<^verbatim>\<open>{"email":""}\<close>; a header value without a dot; an empty
  header value; no header. \<open>every_signature_matches\<close> is the most permissive
  verification primitive.
\<close>

definition post :: "string \<Rightarrow> headers \<Rightarrow> jsstring request" where
  \<open>post u hs =
     \<lparr> req_method = js ''POST'', url = js u, raw_headers = hs,
       raw_body = js ''{"messages":[]}'' \<rparr>\<close>

definition alice_token :: jsstring where
  "alice_token =
     js ''eyJhbGciOiJSUzI1NiJ9.eyJlbWFpbCI6ImFsaWNlQGV4YW1wbGUuY29tIn0.Zm9yZ2Vk''"

definition alice_request :: "jsstring request" where
  "alice_request =
     post ''https://proxy.example/v1/chat?stream=1'' [js ''cf-access-token'' \<mapsto> alice_token]"

definition resigned_token :: jsstring where
  "resigned_token = js ''eyJhbGciOiJSUzI1NiJ9.eyJlbWFpbCI6ImFsaWNlQGV4YW1wbGUuY29tIn0.AAAA''"

definition resigned_request :: "jsstring request" where
  "resigned_request =
     post ''https://proxy.example/v1/chat?stream=1''
       [js ''cf-access-token'' \<mapsto> resigned_token]"

definition unsigned_token :: jsstring where
  "unsigned_token =
     js ''eyJhbGciOiJub25lIn0.eyJlbWFpbCI6Im1hbGxvcnlAZXhhbXBsZS5jb20ifQ.''"

definition unsigned_request :: "jsstring request" where
  "unsigned_request =
     post ''https://proxy.example/v1/chat'' [js ''cf-access-token'' \<mapsto> unsigned_token]"

definition empty_email_token :: jsstring where
  "empty_email_token = js ''eyJhbGciOiJSUzI1NiJ9.eyJlbWFpbCI6IiJ9.c2ln''"

definition empty_email_request :: "jsstring request" where
  "empty_email_request =
     post ''https://proxy.example/v1/chat'' [js ''cf-access-token'' \<mapsto> empty_email_token]"

definition malformed_request :: "jsstring request" where
  "malformed_request =
     post ''https://proxy.example/v1/chat'' [js ''cf-access-token'' \<mapsto> js ''not-a-jwt'']"

definition empty_token_request :: "jsstring request" where
  "empty_token_request = post ''https://proxy.example/v1/chat'' [js ''cf-access-token'' \<mapsto> []]"

definition no_token_request :: "jsstring request" where
  "no_token_request = post ''https://proxy.example/v1/chat'' Map.empty"

definition every_signature_matches :: "unit \<Rightarrow> jsstring \<Rightarrow> bool" where
  "every_signature_matches key token = True"

section \<open>Properties of the handler\<close>

subsection \<open>Headers\<close>

lemma lower_authorization: "map to_lower (js ''Authorization'') = js ''authorization''"
  by code_simp

lemma lower_metadata: "map to_lower (js ''cf-aig-metadata'') = js ''cf-aig-metadata''"
  by code_simp

lemma lower_token: "map to_lower (js ''cf-access-token'') = js ''cf-access-token''"
  by code_simp

lemma valid_authorization_name: "valid_header_name (js ''Authorization'')"
  by code_simp

lemma valid_metadata_name: "valid_header_name (js ''cf-aig-metadata'')"
  by code_simp

lemma header_token:
  "header req (js ''cf-access-token'') = raw_headers req (js ''cf-access-token'')"
  unfolding header_def headers_get_def lower_token by (rule refl)

lemma set_authorization:
  "headers_set h (js ''Authorization'') (js ''Bearer '' @ CF_AI_GATEWAY_TOKEN env) =
     (if valid_header_value (authorization_value env)
      then Inr (h(js ''authorization'' \<mapsto> authorization_value env))
      else Inl (Error_obj (js ''TypeError'') (js ''Invalid header value.'')))"
  unfolding headers_set_def Let_def lower_authorization authorization_value_def
  by (simp add: valid_authorization_name)

lemma set_metadata:
  "headers_set h (js ''cf-aig-metadata'') (JSON_stringify rt (JObj [(js ''user_id'', E)])) =
     (if valid_header_value (metadata_value rt E)
      then Inr (h(js ''cf-aig-metadata'' \<mapsto> metadata_value rt E))
      else Inl (Error_obj (js ''TypeError'') (js ''Invalid header value.'')))"
  unfolding headers_set_def Let_def lower_metadata metadata_value_def
  by (simp add: valid_metadata_name)

lemma forward_headers_eq:
  "forward_headers rt env h E =
     (if outbound_ok rt env E
      then Inr (h(js ''authorization'' \<mapsto> authorization_value env,
                  js ''cf-aig-metadata'' \<mapsto> metadata_value rt E))
      else Inl (Error_obj (js ''TypeError'') (js ''Invalid header value.'')))"
  unfolding forward_headers_def Let_def set_authorization set_metadata
  by (simp add: outbound_ok_def)

lemma proxy_request_eq:
  "proxy_request rt env req E =
     (if outbound_ok rt env E
      then (fetch rt (CF_AI_GATEWAY_URL env) (proxy_init rt env req E),
            [Fetch (CF_AI_GATEWAY_URL env) (proxy_init rt env req E)])
      else (Inl (Error_obj (js ''TypeError'') (js ''Invalid header value.'')), []))"
  by (simp add: proxy_request_def forward_headers_eq proxy_init_def Let_def)

lemma normalize_plain:
  assumes "v \<noteq> []" and "\<not> http_whitespace (hd v)" and "\<not> http_whitespace (last v)"
  shows "normalize_value v = v"
proof -
  from assms(1,2) have a: "dropWhile http_whitespace v = v"
    by (cases v) simp_all
  from assms(1,3) have b: "dropWhile http_whitespace (rev v) = rev v"
    by (cases v rule: rev_cases) simp_all
  show ?thesis by (simp add: normalize_value_def a b)
qed

lemma bearer_plain:
  assumes "secret \<noteq> []" and "\<not> http_whitespace (last secret)"
  shows "normalize_value (js ''Bearer '' @ secret) = js ''Bearer '' @ secret"
proof (rule normalize_plain)
  show "js ''Bearer '' @ secret \<noteq> []" using assms(1) by simp
  have "hd (js ''Bearer '' @ secret) = ch CHR ''B''" by (simp add: js_def)
  moreover have "\<not> http_whitespace (ch CHR ''B'')" by code_simp
  ultimately show "\<not> http_whitespace (hd (js ''Bearer '' @ secret))" by simp
  show "\<not> http_whitespace (last (js ''Bearer '' @ secret))" using assms by simp
qed

subsection \<open>Splitting\<close>

lemma split_not_Nil: "split sep s \<noteq> []"
  by (induction s) (auto split: list.splits)

lemma length_split: "length (split sep s) = Suc (count_list s sep)"
  by (induction s) (auto split: list.splits simp: split_not_Nil)

lemma two_parts_iff: "length (split sep s) < 2 \<longleftrightarrow> sep \<notin> set s"
  by (simp add: length_split count_list_0_iff less_Suc_eq)

lemma split_prefix: "sep \<notin> set h \<Longrightarrow> split sep (h @ sep # rest) = h # split sep rest"
  by (induction h) (auto split: list.splits)

subsection \<open>The branches of the handler\<close>

lemma handler_missing:
  "header req (js ''cf-access-token'') = None \<or> header req (js ''cf-access-token'') = Some [] \<Longrightarrow>
   handler rt env req = (missing_token, [])"
  by (auto simp: handler_def)

lemma handler_invalid:
  "header req (js ''cf-access-token'') = Some token \<Longrightarrow> token \<noteq> [] \<Longrightarrow>
   decode_email rt token = Inl e \<Longrightarrow>
   handler rt env req =
     (invalid_token,
      [Console_error [Str (js ''Failed to decode token:''),
         Str (case message e of Some m \<Rightarrow> m | None \<Rightarrow> js ''Unknown error'')]])"
  by (simp add: handler_def)

lemma handler_headers_refused:
  "header req (js ''cf-access-token'') = Some token \<Longrightarrow> token \<noteq> [] \<Longrightarrow>
   decode_email rt token = Inr E \<Longrightarrow> \<not> outbound_ok rt env E \<Longrightarrow>
   handler rt env req =
     (upstream_failed,
      [Console_error [Str (js ''Failed to proxy request to AI Gateway:''),
         Thrown (Error_obj (js ''TypeError'') (js ''Invalid header value.''))]])"
  by (simp add: handler_def proxy_request_eq)

lemma handler_proxied:
  "header req (js ''cf-access-token'') = Some token \<Longrightarrow> token \<noteq> [] \<Longrightarrow>
   decode_email rt token = Inr E \<Longrightarrow> outbound_ok rt env E \<Longrightarrow>
   fetch rt (CF_AI_GATEWAY_URL env) (proxy_init rt env req E) = Inr r \<Longrightarrow>
   handler rt env req = (Proxied r, [Fetch (CF_AI_GATEWAY_URL env) (proxy_init rt env req E)])"
  by (simp add: handler_def proxy_request_eq)

lemma handler_upstream_failed:
  "header req (js ''cf-access-token'') = Some token \<Longrightarrow> token \<noteq> [] \<Longrightarrow>
   decode_email rt token = Inr E \<Longrightarrow> outbound_ok rt env E \<Longrightarrow>
   fetch rt (CF_AI_GATEWAY_URL env) (proxy_init rt env req E) = Inl err \<Longrightarrow>
   handler rt env req =
     (upstream_failed,
      [Fetch (CF_AI_GATEWAY_URL env) (proxy_init rt env req E),
       Console_error [Str (js ''Failed to proxy request to AI Gateway:''), Thrown err]])"
  by (simp add: handler_def proxy_request_eq)

lemma fetch_calls_decoded:
  "header req (js ''cf-access-token'') = Some token \<Longrightarrow> token \<noteq> [] \<Longrightarrow>
   decode_email rt token = Inr E \<Longrightarrow> outbound_ok rt env E \<Longrightarrow>
   fetch_calls (snd (handler rt env req)) = [(CF_AI_GATEWAY_URL env, proxy_init rt env req E)]"
  by (cases "fetch rt (CF_AI_GATEWAY_URL env) (proxy_init rt env req E)")
     (simp_all add: handler_upstream_failed handler_proxied)

lemma reply_decoded:
  assumes "header req (js ''cf-access-token'') = Some token" and "token \<noteq> []"
    and "decode_email rt token = Inr E"
  shows "fst (handler rt env req) = upstream_failed \<or>
         fst (handler rt env req) \<in> range Proxied"
proof (cases "outbound_ok rt env E")
  case False
  from handler_headers_refused [OF assms False] show ?thesis by simp
next
  case True
  show ?thesis
  proof (cases "fetch rt (CF_AI_GATEWAY_URL env) (proxy_init rt env req E)")
    case (Inl err)
    from handler_upstream_failed [OF assms True Inl] show ?thesis by simp
  next
    case (Inr r)
    from handler_proxied [OF assms True Inr] show ?thesis by simp
  qed
qed

lemma fetch_calls_cases:
  "fetch_calls (snd (handler rt env req)) = [] \<or>
   (\<exists>init. fetch_calls (snd (handler rt env req)) = [(CF_AI_GATEWAY_URL env, init)])"
  by (auto simp: handler_def proxy_request_eq Let_def split: option.splits sum.splits)

lemma destinations:
  "map fst (fetch_calls (snd (handler rt env req))) \<in> {[], [CF_AI_GATEWAY_URL env]}"
  using fetch_calls_cases [of rt env req] by auto

lemma no_other_calls:
  "u \<noteq> CF_AI_GATEWAY_URL env \<Longrightarrow> calls_to u (snd (handler rt env req)) = 0"
  using fetch_calls_cases [of rt env req] by (auto simp: calls_to_def)



lemma gate_replies:
  "fst (handler rt env req) = Json body st \<Longrightarrow>
   Json body st \<in> {missing_token, invalid_token, upstream_failed :: 'b reply}"
  for rt :: "'b runtime"
  by (auto simp: handler_def proxy_request_eq Let_def split: option.splits sum.splits if_splits)

lemma not_forwarded_replies:
  "fetch_calls (snd (handler rt env req)) = [] \<Longrightarrow>
   fst (handler rt env req) \<in> {missing_token, invalid_token, upstream_failed}"
  by (auto simp: handler_def proxy_request_eq Let_def split: option.splits sum.splits if_splits)

lemma handler_url_irrelevant: "handler rt env (req\<lparr>url := u\<rparr>) = handler rt env req"
  by (simp add: handler_def header_def proxy_request_def Let_def
           cong: option.case_cong sum.case_cong if_cong)

subsection \<open>Decoding\<close>

lemma decode_email_iff: "decode_email rt token = Inr E \<longleftrightarrow> payload_email rt token = Some E"
  by (auto simp: decode_email_def payload_email_def two_parts_iff Let_def
           split: sum.splits jsval.splits option.splits if_splits)

lemma not_decoded_iff: "(\<exists>e. decode_email rt token = Inl e) \<longleftrightarrow> payload_email rt token = None"
proof (cases "decode_email rt token")
  case (Inl e)
  with decode_email_iff [of rt token] show ?thesis
    by (cases "payload_email rt token") auto
next
  case (Inr E)
  with decode_email_iff [of rt token E] show ?thesis by simp
qed

lemma payload_email_nonempty: "payload_email rt token = Some E \<Longrightarrow> token \<noteq> []"
  by (auto simp: payload_email_def split: if_splits)

lemma decode_email_cong:
  "atob rt = atob rt' \<Longrightarrow> JSON_parse rt = JSON_parse rt' \<Longrightarrow>
   decode_email rt token = decode_email rt' token"
  by (simp add: decode_email_def Let_def cong: sum.case_cong)

lemma decode_on_platform:
  "decode_email (platform f) token = decode_email (platform network_down) token"
  by (rule decode_email_cong) (simp_all add: platform_def)

lemma outbound_on_platform:
  "outbound_ok (platform f) env E = outbound_ok (platform network_down) env E"
  by (simp add: outbound_ok_def metadata_value_def platform_def)

lemma metadata_on_platform:
  "metadata_value (platform f) E = metadata_value (platform network_down) E"
  by (simp add: metadata_value_def platform_def)

lemma decode_email_signature:
  assumes "ch CHR ''.'' \<notin> set h" and "ch CHR ''.'' \<notin> set p"
  shows "decode_email rt (h @ ch CHR ''.'' # p @ ch CHR ''.'' # sig) =
         decode_email rt (h @ ch CHR ''.'' # p @ ch CHR ''.'' # sig')"
proof -
  have a: "split (ch CHR ''.'') (h @ ch CHR ''.'' # p @ ch CHR ''.'' # s) =
             h # p # split (ch CHR ''.'') s" for s
    using assms by (simp add: split_prefix)
  show ?thesis by (simp add: decode_email_def a)
qed

subsection \<open>The concrete requests\<close>

lemma alice_header: "header alice_request (js ''cf-access-token'') = Some alice_token"
  by (simp add: header_token alice_request_def post_def)

lemma alice_token_nonempty: "alice_token \<noteq> []"
  by code_simp

lemma alice_decoded:
  "decode_email (platform f) alice_token = Inr (JStr (js ''alice@example.com''))"
proof -
  have "decode_email (platform network_down) alice_token = Inr (JStr (js ''alice@example.com''))"
    by code_simp
  then show ?thesis by (simp only: decode_on_platform [of f])
qed

lemma alice_ok: "outbound_ok (platform f) demo_env (JStr (js ''alice@example.com''))"
proof -
  have "outbound_ok (platform network_down) demo_env (JStr (js ''alice@example.com''))"
    by code_simp
  then show ?thesis by (simp only: outbound_on_platform [of f])
qed

lemma demo_authorization: "authorization_value demo_env = js ''Bearer s3cret''"
  by code_simp

lemma alice_metadata:
  \<open>metadata_value (platform f) (JStr (js ''alice@example.com'')) =
     js ''{"user_id":"alice@example.com"}''\<close>
proof -
  have \<open>metadata_value (platform network_down) (JStr (js ''alice@example.com'')) =
          js ''{"user_id":"alice@example.com"}''\<close>
    by code_simp
  then show ?thesis by (simp only: metadata_on_platform [of f])
qed

lemma alice_forwarded:
  "fetch_calls (snd (handler (platform f) demo_env alice_request)) =
     [(CF_AI_GATEWAY_URL demo_env,
       proxy_init (platform f) demo_env alice_request (JStr (js ''alice@example.com'')))]"
  by (rule fetch_calls_decoded [OF alice_header alice_token_nonempty alice_decoded alice_ok])

lemma alice_answered:
  "handler (platform only_gateway_up) demo_env alice_request =
     (Proxied ok_response,
      [Fetch (CF_AI_GATEWAY_URL demo_env)
         (proxy_init (platform only_gateway_up) demo_env alice_request
            (JStr (js ''alice@example.com'')))])"
  by (rule handler_proxied [OF alice_header alice_token_nonempty alice_decoded alice_ok])
     (simp add: platform_def only_gateway_up_def)

lemma line_feed_refused: "\<not> outbound_ok rt line_feed_env E"
proof -
  have "\<not> valid_header_value (authorization_value line_feed_env)"
    by code_simp
  then show ?thesis by (simp add: outbound_ok_def)
qed

lemma carriage_return_refused: "\<not> outbound_ok rt carriage_return_env E"
proof -
  have "\<not> valid_header_value (authorization_value carriage_return_env)"
    by code_simp
  then show ?thesis by (simp add: outbound_ok_def)
qed

lemma unsigned_header: "header unsigned_request (js ''cf-access-token'') = Some unsigned_token"
  by (simp add: header_token unsigned_request_def post_def)

lemma unsigned_token_nonempty: "unsigned_token \<noteq> []"
  by code_simp

lemma unsigned_decoded:
  "decode_email (platform f) unsigned_token = Inr (JStr (js ''mallory@example.com''))"
proof -
  have "decode_email (platform network_down) unsigned_token =
          Inr (JStr (js ''mallory@example.com''))"
    by code_simp
  then show ?thesis by (simp only: decode_on_platform [of f])
qed

lemma mallory_ok: "outbound_ok (platform f) demo_env (JStr (js ''mallory@example.com''))"
proof -
  have "outbound_ok (platform network_down) demo_env (JStr (js ''mallory@example.com''))"
    by code_simp
  then show ?thesis by (simp only: outbound_on_platform [of f])
qed

lemma unsigned_answered:
  "handler (platform only_gateway_up) demo_env unsigned_request =
     (Proxied ok_response,
      [Fetch (CF_AI_GATEWAY_URL demo_env)
         (proxy_init (platform only_gateway_up) demo_env unsigned_request
            (JStr (js ''mallory@example.com'')))])"
  by (rule handler_proxied [OF unsigned_header unsigned_token_nonempty unsigned_decoded mallory_ok])
     (simp add: platform_def only_gateway_up_def)

lemma resigned_header: "header resigned_request (js ''cf-access-token'') = Some resigned_token"
  by (simp add: header_token resigned_request_def post_def)

lemma resigned_token_nonempty: "resigned_token \<noteq> []"
  by code_simp

lemma resigned_decoded:
  "decode_email (platform f) resigned_token = Inr (JStr (js ''alice@example.com''))"
proof -
  have "decode_email (platform network_down) resigned_token =
          Inr (JStr (js ''alice@example.com''))"
    by code_simp
  then show ?thesis by (simp only: decode_on_platform [of f])
qed

lemma resigned_answered:
  "handler (platform only_gateway_up) demo_env resigned_request =
     (Proxied ok_response,
      [Fetch (CF_AI_GATEWAY_URL demo_env)
         (proxy_init (platform only_gateway_up) demo_env resigned_request
            (JStr (js ''alice@example.com'')))])"
  by (rule handler_proxied [OF resigned_header resigned_token_nonempty resigned_decoded alice_ok])
     (simp add: platform_def only_gateway_up_def)

lemma malformed_header:
  "header malformed_request (js ''cf-access-token'') = Some (js ''not-a-jwt'')"
  by (simp add: header_token malformed_request_def post_def)

lemma malformed_nonempty: "js ''not-a-jwt'' \<noteq> []"
  by code_simp

lemma malformed_not_decoded:
  "decode_email rt (js ''not-a-jwt'') =
     Inl (Error_obj (js ''Error'') (js ''Invalid JWT structure''))"
proof -
  have "ch CHR ''.'' \<notin> set (js ''not-a-jwt'')" by code_simp
  then show ?thesis by (simp add: decode_email_def two_parts_iff)
qed

lemma empty_email_header:
  "header empty_email_request (js ''cf-access-token'') = Some empty_email_token"
  by (simp add: header_token empty_email_request_def post_def)

lemma empty_email_nonempty: "empty_email_token \<noteq> []"
  by code_simp

lemma empty_email_not_decoded:
  "decode_email (platform f) empty_email_token =
     Inl (Error_obj (js ''Error'') (js ''Email not found in token payload''))"
proof -
  have "decode_email (platform network_down) empty_email_token =
          Inl (Error_obj (js ''Error'') (js ''Email not found in token payload''))"
    by code_simp
  then show ?thesis by (simp only: decode_on_platform [of f])
qed

lemma empty_token_header: "header empty_token_request (js ''cf-access-token'') = Some []"
  by (simp add: header_token empty_token_request_def post_def)

lemma no_token_header: "header no_token_request (js ''cf-access-token'') = None"
  by (simp add: header_token no_token_request_def post_def)

lemma certs_url_other: "certs_url \<noteq> CF_AI_GATEWAY_URL demo_env"
  by code_simp

lemma js_dot: "js ''.'' = [ch CHR ''.'']"
  by (simp add: js_def)

lemma bodies_differ:
  "js ''Missing authentication token'' \<noteq> js ''Invalid or malformed token''"
  by code_simp

lemma alice_parts:
  "alice_token =
     js ''eyJhbGciOiJSUzI1NiJ9'' @ js ''.'' @ js ''eyJlbWFpbCI6ImFsaWNlQGV4YW1wbGUuY29tIn0'' @
     js ''.'' @ js ''Zm9yZ2Vk''"
  by code_simp

lemma resigned_parts:
  "resigned_token =
     js ''eyJhbGciOiJSUzI1NiJ9'' @ js ''.'' @ js ''eyJlbWFpbCI6ImFsaWNlQGV4YW1wbGUuY29tIn0'' @
     js ''.'' @ js ''AAAA''"
  by code_simp

lemma empty_email_parts:
  "empty_email_token =
     js ''eyJhbGciOiJSUzI1NiJ9'' @ js ''.'' @ js ''eyJlbWFpbCI6IiJ9'' @ js ''.'' @ js ''c2ln''"
  by code_simp

lemma empty_payload_no_dot: "ch CHR ''.'' \<notin> set (js ''eyJlbWFpbCI6IiJ9'')"
  by code_simp

lemma alice_head_no_dot: "ch CHR ''.'' \<notin> set (js ''eyJhbGciOiJSUzI1NiJ9'')"
  by code_simp

lemma alice_payload_no_dot:
  "ch CHR ''.'' \<notin> set (js ''eyJlbWFpbCI6ImFsaWNlQGV4YW1wbGUuY29tIn0'')"
  by code_simp

lemma alice_refused_line_feed:
  "handler (platform f) line_feed_env alice_request =
     (upstream_failed,
      [Console_error [Str (js ''Failed to proxy request to AI Gateway:''),
         Thrown (Error_obj (js ''TypeError'') (js ''Invalid header value.''))]])"
  by (rule handler_headers_refused
        [OF alice_header alice_token_nonempty alice_decoded line_feed_refused])

lemma alice_refused_carriage_return:
  "handler (platform f) carriage_return_env alice_request =
     (upstream_failed,
      [Console_error [Str (js ''Failed to proxy request to AI Gateway:''),
         Thrown (Error_obj (js ''TypeError'') (js ''Invalid header value.''))]])"
  by (rule handler_headers_refused
        [OF alice_header alice_token_nonempty alice_decoded carriage_return_refused])

subsection \<open>Missing token\<close>

text \<open>
  C2: a request without the header \<^verbatim>\<open>cf-access-token\<close> is answered with status 401 and
  the body \<^verbatim>\<open>{"error": "Missing authentication token"}\<close>, and the run has no effect at
  all: no call of \<^verbatim>\<open>fetch\<close>, to a key-set endpoint or to the upstream.
\<close>

theorem C2_missing_token:
  assumes "header req (js ''cf-access-token'') = None"
  shows "handler rt env req =
           (Json (JObj [(js ''error'', JStr (js ''Missing authentication token''))]) 401, [])"
  using assms by (simp add: handler_missing [unfolded missing_token_def])

theorem C2_missing_token_witness:
  "header (post ''https://proxy.example/v1/chat'' Map.empty) (js ''cf-access-token'') = None \<and>
   handler (platform only_gateway_up) demo_env (post ''https://proxy.example/v1/chat'' Map.empty) =
     (Json (JObj [(js ''error'', JStr (js ''Missing authentication token''))]) 401, [])"
proof -
  have h: "header (post ''https://proxy.example/v1/chat'' Map.empty) (js ''cf-access-token'') = None"
    by (simp add: header_token post_def)
  from C2_missing_token [OF h] h show ?thesis by simp
qed

subsection \<open>Forwarding\<close>

text \<open>
  C3, as stated, fails for a configured secret that \<^verbatim>\<open>Headers.set\<close> refuses: with a
  line feed inside the secret, the request of \<open>alice_request\<close>, whose token decodes to
  the identity \<^verbatim>\<open>alice@example.com\<close>, leads to no outbound call at all. The
  \<^verbatim>\<open>TypeError\<close> of \<^verbatim>\<open>forwardHeaders.set("Authorization", ...)\<close> is caught by the
  second \<^verbatim>\<open>catch\<close>, and the answer is 502 although the upstream is up.
\<close>

theorem C3_counterexample:
  "header alice_request (js ''cf-access-token'') = Some alice_token \<and>
   decode_email (platform only_gateway_up) alice_token = Inr (JStr (js ''alice@example.com'')) \<and>
   fetch_calls (snd (handler (platform only_gateway_up) line_feed_env alice_request)) = [] \<and>
   fst (handler (platform only_gateway_up) line_feed_env alice_request) =
     Json (JObj [(js ''error'', JStr (js ''Failed to connect to the upstream service''))]) 502"
  using alice_header alice_decoded [of only_gateway_up]
    alice_refused_line_feed [of only_gateway_up]
  by (simp add: upstream_failed_def)

text \<open>
  C3, amended: let the token of a request decode to the e-mail value \<open>E\<close>. The two
  header values of the outbound call are \<^verbatim>\<open>Bearer\<close> followed by the configured secret
  and the JSON text of \<^verbatim>\<open>{ user_id: E }\<close>, each without its leading and trailing HTTP
  whitespace. When neither of them holds a NUL, a line feed or a carriage return
  (\<open>outbound_ok\<close>), the run makes exactly one call of \<^verbatim>\<open>fetch\<close>: to the configured
  upstream URL, with the method of the inbound request, with the inbound headers
  except that \<^verbatim>\<open>Authorization\<close> and \<^verbatim>\<open>cf-aig-metadata\<close> have these two values, and
  with the body stream of the inbound request. Otherwise the run makes no call and
  the answer is 502 with the body
  \<^verbatim>\<open>{"error": "Failed to connect to the upstream service"}\<close>. For a secret that is not
  empty and does not end in HTTP whitespace, the first value is \<^verbatim>\<open>Bearer\<close>, a space
  and the secret, unchanged.
\<close>

theorem C3_outbound_call:
  assumes "header req (js ''cf-access-token'') = Some token" and "token \<noteq> []"
    and "decode_email rt token = Inr E"
  shows "(outbound_ok rt env E \<longrightarrow>
            fetch_calls (snd (handler rt env req)) =
              [(CF_AI_GATEWAY_URL env,
                \<lparr> init_method = req_method req,
                  init_headers =
                    (raw_headers req)
                      (js ''authorization'' \<mapsto>
                         normalize_value (js ''Bearer '' @ CF_AI_GATEWAY_TOKEN env),
                       js ''cf-aig-metadata'' \<mapsto>
                         normalize_value (JSON_stringify rt (JObj [(js ''user_id'', E)]))),
                  init_body = raw_body req \<rparr>)]) \<and>
         (\<not> outbound_ok rt env E \<longrightarrow>
            fetch_calls (snd (handler rt env req)) = [] \<and>
            fst (handler rt env req) =
              Json (JObj [(js ''error'', JStr (js ''Failed to connect to the upstream service''))])
                502) \<and>
         (CF_AI_GATEWAY_TOKEN env \<noteq> [] \<and> \<not> http_whitespace (last (CF_AI_GATEWAY_TOKEN env)) \<longrightarrow>
            normalize_value (js ''Bearer '' @ CF_AI_GATEWAY_TOKEN env) =
              js ''Bearer '' @ CF_AI_GATEWAY_TOKEN env)"
proof (intro conjI impI)
  assume ok: "outbound_ok rt env E"
  from fetch_calls_decoded [OF assms ok]
  show "fetch_calls (snd (handler rt env req)) =
          [(CF_AI_GATEWAY_URL env,
            \<lparr> init_method = req_method req,
              init_headers =
                (raw_headers req)
                  (js ''authorization'' \<mapsto>
                     normalize_value (js ''Bearer '' @ CF_AI_GATEWAY_TOKEN env),
                   js ''cf-aig-metadata'' \<mapsto>
                     normalize_value (JSON_stringify rt (JObj [(js ''user_id'', E)]))),
              init_body = raw_body req \<rparr>)]"
    by (simp add: proxy_init_def authorization_value_def metadata_value_def)
next
  assume no: "\<not> outbound_ok rt env E"
  from handler_headers_refused [OF assms no]
  show "fetch_calls (snd (handler rt env req)) = []" by simp
  from handler_headers_refused [OF assms no]
  show "fst (handler rt env req) =
          Json (JObj [(js ''error'', JStr (js ''Failed to connect to the upstream service''))]) 502"
    by (simp add: upstream_failed_def)
next
  assume "CF_AI_GATEWAY_TOKEN env \<noteq> [] \<and> \<not> http_whitespace (last (CF_AI_GATEWAY_TOKEN env))"
  then show "normalize_value (js ''Bearer '' @ CF_AI_GATEWAY_TOKEN env) =
               js ''Bearer '' @ CF_AI_GATEWAY_TOKEN env"
    by (simp add: bearer_plain)
qed

theorem C3_outbound_call_witness:
  \<open>header alice_request (js ''cf-access-token'') = Some alice_token \<and> alice_token \<noteq> [] \<and>
   decode_email (platform only_gateway_up) alice_token = Inr (JStr (js ''alice@example.com'')) \<and>
   outbound_ok (platform only_gateway_up) demo_env (JStr (js ''alice@example.com'')) \<and>
   fetch_calls (snd (handler (platform only_gateway_up) demo_env alice_request)) =
     [(CF_AI_GATEWAY_URL demo_env,
       \<lparr> init_method = js ''POST'',
         init_headers =
           [js ''cf-access-token'' \<mapsto> alice_token,
            js ''authorization'' \<mapsto> js ''Bearer s3cret'',
            js ''cf-aig-metadata'' \<mapsto> js ''{"user_id":"alice@example.com"}''],
         init_body = js ''{"messages":[]}'' \<rparr>)] \<and>
   CF_AI_GATEWAY_TOKEN demo_env \<noteq> [] \<and>
   \<not> http_whitespace (last (CF_AI_GATEWAY_TOKEN demo_env)) \<and>
   normalize_value (js ''Bearer '' @ CF_AI_GATEWAY_TOKEN demo_env) =
     js ''Bearer '' @ CF_AI_GATEWAY_TOKEN demo_env \<and>
   \<not> outbound_ok (platform only_gateway_up) line_feed_env (JStr (js ''alice@example.com'')) \<and>
   fetch_calls (snd (handler (platform only_gateway_up) line_feed_env alice_request)) = [] \<and>
   fst (handler (platform only_gateway_up) line_feed_env alice_request) =
     Json (JObj [(js ''error'', JStr (js ''Failed to connect to the upstream service''))]) 502\<close>
proof -
  note good = C3_outbound_call
    [OF alice_header alice_token_nonempty alice_decoded [of only_gateway_up],
      where env = demo_env]
  note bad = C3_outbound_call
    [OF alice_header alice_token_nonempty alice_decoded [of only_gateway_up],
      where env = line_feed_env]
  have a: "normalize_value (js ''Bearer '' @ CF_AI_GATEWAY_TOKEN demo_env) = js ''Bearer s3cret''"
    using demo_authorization by (simp add: authorization_value_def)
  have m: \<open>normalize_value
             (JSON_stringify (platform only_gateway_up)
                (JObj [(js ''user_id'', JStr (js ''alice@example.com''))])) =
           js ''{"user_id":"alice@example.com"}''\<close>
    using alice_metadata [of only_gateway_up] by (simp add: metadata_value_def)
  have ok: "outbound_ok (platform only_gateway_up) demo_env (JStr (js ''alice@example.com''))"
    by (rule alice_ok)
  have no: "\<not> outbound_ok (platform only_gateway_up) line_feed_env (JStr (js ''alice@example.com''))"
    by (rule line_feed_refused)
  have s: "CF_AI_GATEWAY_TOKEN demo_env \<noteq> []"
    by code_simp
  have w: "\<not> http_whitespace (last (CF_AI_GATEWAY_TOKEN demo_env))"
    by code_simp
  have 1: \<open>fetch_calls (snd (handler (platform only_gateway_up) demo_env alice_request)) =
     [(CF_AI_GATEWAY_URL demo_env,
       \<lparr> init_method = js ''POST'',
         init_headers =
           [js ''cf-access-token'' \<mapsto> alice_token,
            js ''authorization'' \<mapsto> js ''Bearer s3cret'',
            js ''cf-aig-metadata'' \<mapsto> js ''{"user_id":"alice@example.com"}''],
         init_body = js ''{"messages":[]}'' \<rparr>)]\<close>
    using good ok by (simp add: a m alice_request_def post_def)
  have 2: "normalize_value (js ''Bearer '' @ CF_AI_GATEWAY_TOKEN demo_env) =
             js ''Bearer '' @ CF_AI_GATEWAY_TOKEN demo_env"
    using good s w by blast
  have 3: "fetch_calls (snd (handler (platform only_gateway_up) line_feed_env alice_request)) = [] \<and>
     fst (handler (platform only_gateway_up) line_feed_env alice_request) =
       Json (JObj [(js ''error'', JStr (js ''Failed to connect to the upstream service''))]) 502"
    using bad no by blast
  from alice_header alice_token_nonempty alice_decoded [of only_gateway_up] ok no s w 1 2 3
  show ?thesis by blast
qed

text \<open>
  C5: once the outbound call is made and \<^verbatim>\<open>fetch\<close> resolves to a response, the handler
  returns that response itself: status, headers and body stream are the upstream's,
  whatever the status. The handler has no operation on a body stream, so it neither
  reads nor buffers it.
\<close>

theorem C5_response_passthrough:
  assumes "fetch_calls (snd (handler rt env req)) = [(u, init)]"
    and "fetch rt u init = Inr upstream"
  shows "fst (handler rt env req) = Proxied upstream"
  using assms
  by (auto simp: handler_def proxy_request_eq Let_def split: option.splits if_splits sum.splits)

theorem C5_response_passthrough_witness:
  "fetch_calls (snd (handler (platform gateway_errors) demo_env alice_request)) =
     [(CF_AI_GATEWAY_URL demo_env,
       proxy_init (platform gateway_errors) demo_env alice_request
         (JStr (js ''alice@example.com'')))] \<and>
   fetch (platform gateway_errors) (CF_AI_GATEWAY_URL demo_env)
     (proxy_init (platform gateway_errors) demo_env alice_request
        (JStr (js ''alice@example.com''))) =
     Inr error_response \<and>
   fst (handler (platform gateway_errors) demo_env alice_request) = Proxied error_response \<and>
   status error_response = 500"
proof -
  have calls: "fetch_calls (snd (handler (platform gateway_errors) demo_env alice_request)) =
     [(CF_AI_GATEWAY_URL demo_env,
       proxy_init (platform gateway_errors) demo_env alice_request
         (JStr (js ''alice@example.com'')))]"
    by (rule alice_forwarded)
  have resolved: "fetch (platform gateway_errors) (CF_AI_GATEWAY_URL demo_env)
     (proxy_init (platform gateway_errors) demo_env alice_request
        (JStr (js ''alice@example.com''))) =
     Inr error_response"
    by (simp add: platform_def gateway_errors_def)
  from C5_response_passthrough [OF calls resolved] calls resolved show ?thesis
    by (simp add: error_response_def)
qed

subsection \<open>Upstream failure\<close>

text \<open>
  C6: when the outbound call is made and \<^verbatim>\<open>fetch\<close> throws, the handler answers with
  status 502 and the body \<^verbatim>\<open>{"error": "Failed to connect to the upstream service"}\<close>.
  The only effects of the run are the call itself and one line on \<^verbatim>\<open>console.error\<close>;
  the worker has no module state, so no key-set cache exists that could change.
\<close>

theorem C6_upstream_unreachable:
  assumes "fetch_calls (snd (handler rt env req)) = [(u, init)]"
    and "fetch rt u init = Inl err"
  shows "handler rt env req =
           (Json (JObj [(js ''error'', JStr (js ''Failed to connect to the upstream service''))])
              502,
            [Fetch u init,
             Console_error [Str (js ''Failed to proxy request to AI Gateway:''), Thrown err]])"
  using assms
  by (auto simp: handler_def proxy_request_eq Let_def upstream_failed_def
           split: option.splits if_splits sum.splits)

theorem C6_upstream_unreachable_witness:
  "fetch_calls (snd (handler (platform network_down) demo_env alice_request)) =
     [(CF_AI_GATEWAY_URL demo_env,
       proxy_init (platform network_down) demo_env alice_request
         (JStr (js ''alice@example.com'')))] \<and>
   fetch (platform network_down) (CF_AI_GATEWAY_URL demo_env)
     (proxy_init (platform network_down) demo_env alice_request
        (JStr (js ''alice@example.com''))) =
     Inl network_error \<and>
   handler (platform network_down) demo_env alice_request =
     (Json (JObj [(js ''error'', JStr (js ''Failed to connect to the upstream service''))]) 502,
      [Fetch (CF_AI_GATEWAY_URL demo_env)
         (proxy_init (platform network_down) demo_env alice_request
            (JStr (js ''alice@example.com''))),
       Console_error [Str (js ''Failed to proxy request to AI Gateway:''), Thrown network_error]])"
proof -
  have calls: "fetch_calls (snd (handler (platform network_down) demo_env alice_request)) =
     [(CF_AI_GATEWAY_URL demo_env,
       proxy_init (platform network_down) demo_env alice_request
         (JStr (js ''alice@example.com'')))]"
    by (rule alice_forwarded)
  have thrown: "fetch (platform network_down) (CF_AI_GATEWAY_URL demo_env)
     (proxy_init (platform network_down) demo_env alice_request
        (JStr (js ''alice@example.com''))) =
     Inl network_error"
    by (simp add: platform_def network_down_def)
  from C6_upstream_unreachable [OF calls thrown] calls thrown show ?thesis
    by simp
qed

subsection \<open>Destination of the outbound call\<close>

text \<open>
  C10: the URL of the inbound request, path and query string included, has no effect on
  the run, and every call of \<^verbatim>\<open>fetch\<close> goes to the configured upstream URL: the
  list of destinations of a run is empty or is that URL alone.
\<close>

theorem C10_fixed_destination:
  "handler rt env (req\<lparr>url := u\<rparr>) = handler rt env req \<and>
   map fst (fetch_calls (snd (handler rt env req))) \<in> {[], [CF_AI_GATEWAY_URL env]}"
  using fetch_calls_cases [of rt env req] by (auto simp: handler_url_irrelevant)

subsection \<open>Acceptance by decoding\<close>

text \<open>
  C9, as stated, fails twice. A header that is present with the empty string as
  its value is a token that does not pass the decoding, and it is answered with the body
  \<^verbatim>\<open>{"error": "Missing authentication token"}\<close>, not
  \<^verbatim>\<open>{"error": "Invalid or malformed token"}\<close>, because \<^verbatim>\<open>!token\<close> holds for it. And
  a token that passes the decoding is not forwarded when \<^verbatim>\<open>Headers.set\<close> refuses the
  configured secret, here one with a carriage return inside: no call is made and the
  answer is 502.
\<close>

theorem C9_counterexample:
  "header empty_token_request (js ''cf-access-token'') = Some [] \<and>
   payload_email (platform only_gateway_up) [] = None \<and>
   handler (platform only_gateway_up) demo_env empty_token_request =
     (Json (JObj [(js ''error'', JStr (js ''Missing authentication token''))]) 401, []) \<and>
   header alice_request (js ''cf-access-token'') = Some alice_token \<and>
   payload_email (platform only_gateway_up) alice_token = Some (JStr (js ''alice@example.com'')) \<and>
   fetch_calls (snd (handler (platform only_gateway_up) carriage_return_env alice_request)) = [] \<and>
   reply_status (fst (handler (platform only_gateway_up) carriage_return_env alice_request)) = 502"
proof -
  have a: "payload_email (platform only_gateway_up) [] = None"
    by (simp add: payload_email_def)
  have "handler (platform only_gateway_up) demo_env empty_token_request = (missing_token, [])"
    by (rule handler_missing) (simp add: empty_token_header)
  then have b: "handler (platform only_gateway_up) demo_env empty_token_request =
     (Json (JObj [(js ''error'', JStr (js ''Missing authentication token''))]) 401, [])"
    by (simp only: missing_token_def)
  have c: "payload_email (platform only_gateway_up) alice_token =
      Some (JStr (js ''alice@example.com''))"
    using alice_decoded [of only_gateway_up] by (simp only: decode_email_iff)
  have d: "fetch_calls (snd (handler (platform only_gateway_up) carriage_return_env
      alice_request)) = []"
    by (simp add: alice_refused_carriage_return)
  have e: "reply_status (fst (handler (platform only_gateway_up) carriage_return_env
      alice_request)) = 502"
    by (simp add: alice_refused_carriage_return upstream_failed_def)
  show ?thesis
    by (intro conjI) (rule empty_token_header a b alice_header c d e)+
qed

text \<open>
  C9, amended: let the header \<^verbatim>\<open>cf-access-token\<close> of a request have a dot and let its
  second dot-separated segment base64-decode to a JSON object with a truthy
  \<^verbatim>\<open>email\<close>, \<open>E\<close>. When \<^verbatim>\<open>Headers.set\<close> takes the two outbound header values
  (\<open>outbound_ok\<close>), the run makes one call of \<^verbatim>\<open>fetch\<close>, to the upstream URL, and no
  other: no signature check, no expiry check and no key-set fetch stand in between.
  When it does not, no call is made and the answer is 502. Every non-empty token that
  fails the decoding, one with an empty-string \<^verbatim>\<open>email\<close> included, is answered with
  status 401 and the body \<^verbatim>\<open>{"error": "Invalid or malformed token"}\<close>, and no call is
  made. A header whose value is the empty string is answered like an absent header,
  with \<^verbatim>\<open>{"error": "Missing authentication token"}\<close> and no effect.
\<close>

theorem C9_acceptance_by_decoding:
  assumes "header req (js ''cf-access-token'') = Some token"
  shows "(payload_email rt token = Some E \<and> outbound_ok rt env E \<longrightarrow>
            map fst (fetch_calls (snd (handler rt env req))) = [CF_AI_GATEWAY_URL env]) \<and>
         (payload_email rt token = Some E \<and> \<not> outbound_ok rt env E \<longrightarrow>
            fetch_calls (snd (handler rt env req)) = [] \<and>
            fst (handler rt env req) =
              Json (JObj [(js ''error'', JStr (js ''Failed to connect to the upstream service''))])
                502) \<and>
         (payload_email rt token = None \<and> token \<noteq> [] \<longrightarrow>
            fst (handler rt env req) =
              Json (JObj [(js ''error'', JStr (js ''Invalid or malformed token''))]) 401 \<and>
            fetch_calls (snd (handler rt env req)) = []) \<and>
         (token = [] \<longrightarrow>
            handler rt env req =
              (Json (JObj [(js ''error'', JStr (js ''Missing authentication token''))]) 401, []))"
proof (intro conjI impI)
  assume a: "payload_email rt token = Some E \<and> outbound_ok rt env E"
  then have d: "decode_email rt token = Inr E" by (simp add: decode_email_iff)
  from a have n: "token \<noteq> []" by (auto dest: payload_email_nonempty)
  from fetch_calls_decoded [OF assms n d] a
  show "map fst (fetch_calls (snd (handler rt env req))) = [CF_AI_GATEWAY_URL env]" by simp
next
  assume a: "payload_email rt token = Some E \<and> \<not> outbound_ok rt env E"
  then have d: "decode_email rt token = Inr E" by (simp add: decode_email_iff)
  from a have n: "token \<noteq> []" by (auto dest: payload_email_nonempty)
  from a have no: "\<not> outbound_ok rt env E" by simp
  from handler_headers_refused [OF assms n d no]
  show "fetch_calls (snd (handler rt env req)) = []" by simp
  from handler_headers_refused [OF assms n d no]
  show "fst (handler rt env req) =
          Json (JObj [(js ''error'', JStr (js ''Failed to connect to the upstream service''))]) 502"
    by (simp add: upstream_failed_def)
next
  assume a: "payload_email rt token = None \<and> token \<noteq> []"
  then obtain e where e: "decode_email rt token = Inl e"
    using not_decoded_iff [of rt token] by blast
  from a have n: "token \<noteq> []" by simp
  from handler_invalid [OF assms n e]
  show "fst (handler rt env req) =
          Json (JObj [(js ''error'', JStr (js ''Invalid or malformed token''))]) 401"
    by (simp add: invalid_token_def)
  from handler_invalid [OF assms n e]
  show "fetch_calls (snd (handler rt env req)) = []" by simp
next
  assume "token = []"
  with assms have "header req (js ''cf-access-token'') = Some []" by simp
  then have "handler rt env req = (missing_token, [])"
    by (simp add: handler_missing)
  then show "handler rt env req =
      (Json (JObj [(js ''error'', JStr (js ''Missing authentication token''))]) 401, [])"
    by (simp add: missing_token_def)
qed

theorem C9_acceptance_by_decoding_witness:
  "header alice_request (js ''cf-access-token'') = Some alice_token \<and>
   payload_email (platform only_gateway_up) alice_token = Some (JStr (js ''alice@example.com'')) \<and>
   outbound_ok (platform only_gateway_up) demo_env (JStr (js ''alice@example.com'')) \<and>
   map fst (fetch_calls (snd (handler (platform only_gateway_up) demo_env alice_request))) =
     [CF_AI_GATEWAY_URL demo_env] \<and>
   \<not> outbound_ok (platform only_gateway_up) line_feed_env (JStr (js ''alice@example.com'')) \<and>
   fetch_calls (snd (handler (platform only_gateway_up) line_feed_env alice_request)) = [] \<and>
   fst (handler (platform only_gateway_up) line_feed_env alice_request) =
     Json (JObj [(js ''error'', JStr (js ''Failed to connect to the upstream service''))]) 502 \<and>
   header empty_email_request (js ''cf-access-token'') = Some empty_email_token \<and>
   payload_email (platform only_gateway_up) empty_email_token = None \<and>
   empty_email_token \<noteq> [] \<and>
   fst (handler (platform only_gateway_up) demo_env empty_email_request) =
     Json (JObj [(js ''error'', JStr (js ''Invalid or malformed token''))]) 401 \<and>
   fetch_calls (snd (handler (platform only_gateway_up) demo_env empty_email_request)) = [] \<and>
   header empty_token_request (js ''cf-access-token'') = Some [] \<and>
   handler (platform only_gateway_up) demo_env empty_token_request =
     (Json (JObj [(js ''error'', JStr (js ''Missing authentication token''))]) 401, [])"
proof -
  note alice = C9_acceptance_by_decoding
      [OF alice_header, where rt = "platform only_gateway_up"
         and E = "JStr (js ''alice@example.com'')" and env = demo_env]
  note refused = C9_acceptance_by_decoding
      [OF alice_header, where rt = "platform only_gateway_up"
         and E = "JStr (js ''alice@example.com'')" and env = line_feed_env]
  note no_email = C9_acceptance_by_decoding
      [OF empty_email_header, where rt = "platform only_gateway_up"
         and E = "JStr (js ''alice@example.com'')" and env = demo_env]
  note empty = C9_acceptance_by_decoding
      [OF empty_token_header, where rt = "platform only_gateway_up"
         and E = "JStr (js ''alice@example.com'')" and env = demo_env]
  have p: "payload_email (platform only_gateway_up) alice_token =
             Some (JStr (js ''alice@example.com''))"
    using alice_decoded [of only_gateway_up] by (simp only: decode_email_iff)
  have q: "payload_email (platform only_gateway_up) empty_email_token = None"
    using empty_email_not_decoded [of only_gateway_up]
      not_decoded_iff [of "platform only_gateway_up" empty_email_token]
    by blast
  have ok: "outbound_ok (platform only_gateway_up) demo_env (JStr (js ''alice@example.com''))"
    by (rule alice_ok)
  have no: "\<not> outbound_ok (platform only_gateway_up) line_feed_env (JStr (js ''alice@example.com''))"
    by (rule line_feed_refused)
  have 1: "map fst (fetch_calls (snd (handler (platform only_gateway_up) demo_env alice_request))) =
     [CF_AI_GATEWAY_URL demo_env]"
    by (rule alice [THEN conjunct1, THEN mp, OF conjI [OF p ok]])
  note r = refused [THEN conjunct2, THEN conjunct1, THEN mp, OF conjI [OF p no]]
  have 2: "fetch_calls (snd (handler (platform only_gateway_up) line_feed_env alice_request)) = []"
    by (rule r [THEN conjunct1])
  have 3: "fst (handler (platform only_gateway_up) line_feed_env alice_request) =
     Json (JObj [(js ''error'', JStr (js ''Failed to connect to the upstream service''))]) 502"
    by (rule r [THEN conjunct2])
  note n = no_email [THEN conjunct2, THEN conjunct2, THEN conjunct1, THEN mp,
      OF conjI [OF q empty_email_nonempty]]
  have 4: "fst (handler (platform only_gateway_up) demo_env empty_email_request) =
     Json (JObj [(js ''error'', JStr (js ''Invalid or malformed token''))]) 401"
    by (rule n [THEN conjunct1])
  have 5: "fetch_calls (snd (handler (platform only_gateway_up) demo_env empty_email_request)) = []"
    by (rule n [THEN conjunct2])
  have 6: "handler (platform only_gateway_up) demo_env empty_token_request =
     (Json (JObj [(js ''error'', JStr (js ''Missing authentication token''))]) 401, [])"
    by (rule empty [THEN conjunct2, THEN conjunct2, THEN conjunct2, THEN mp, OF refl])
  show ?thesis
    by (intro conjI)
       (rule alice_header p ok 1 no 2 3 empty_email_header q empty_email_nonempty 4 5
          empty_token_header 6)+
qed

subsection \<open>No signature check\<close>

text \<open>
  C1, as stated, fails: with an empty key set no key matches any token, whatever the
  verification primitive, so the specification's rule accepts no token; the handler
  forwards the request of \<open>alice_request\<close> upstream all the same and returns the
  upstream's 200.
\<close>

theorem C1_counterexample:
  "header alice_request (js ''cf-access-token'') = Some alice_token \<and>
   \<not> spec_signature_accepted every_signature_matches [] alice_token \<and>
   reply_status (fst (handler (platform only_gateway_up) demo_env alice_request)) = 200 \<and>
   map fst (fetch_calls (snd (handler (platform only_gateway_up) demo_env alice_request))) =
     [CF_AI_GATEWAY_URL demo_env]"
  using alice_header alice_answered
  by (simp add: spec_signature_accepted_def ok_response_def)

text \<open>
  C1, amended: the signature segment of a token is not checked and no key set is read.
  For two requests whose tokens of three dot-separated segments differ in the
  signature segment only, the decoding has the same outcome, and both requests lead
  to an upstream call or neither does; a call of a run goes nowhere but to the
  upstream URL. When the payload segment gives no identity, the request is answered
  with status 401 and the body \<^verbatim>\<open>{"error": "Invalid or malformed token"}\<close> and no call
  is made; when it gives one, the answer is neither of the gate's 401 responses,
  whatever the signature segment is.
\<close>

theorem C1_signature_ignored:
  assumes "header req (js ''cf-access-token'') = Some (h @ js ''.'' @ p @ js ''.'' @ sig)"
    and "header req' (js ''cf-access-token'') = Some (h @ js ''.'' @ p @ js ''.'' @ sig')"
    and "ch CHR ''.'' \<notin> set h" and "ch CHR ''.'' \<notin> set p"
  shows "decode_email rt (h @ js ''.'' @ p @ js ''.'' @ sig) =
           decode_email rt (h @ js ''.'' @ p @ js ''.'' @ sig') \<and>
         (fetch_calls (snd (handler rt env req)) = [] \<longleftrightarrow>
            fetch_calls (snd (handler rt env req')) = []) \<and>
         map fst (fetch_calls (snd (handler rt env req))) \<in> {[], [CF_AI_GATEWAY_URL env]} \<and>
         (payload_email rt (h @ js ''.'' @ p @ js ''.'' @ sig) = None \<longrightarrow>
            fst (handler rt env req) =
              Json (JObj [(js ''error'', JStr (js ''Invalid or malformed token''))]) 401 \<and>
            fetch_calls (snd (handler rt env req)) = []) \<and>
         (payload_email rt (h @ js ''.'' @ p @ js ''.'' @ sig) = Some E \<longrightarrow>
            fst (handler rt env req) \<notin>
              {Json (JObj [(js ''error'', JStr (js ''Missing authentication token''))]) 401,
               Json (JObj [(js ''error'', JStr (js ''Invalid or malformed token''))]) 401})"
proof -
  let ?t = "h @ js ''.'' @ p @ js ''.'' @ sig" and ?t' = "h @ js ''.'' @ p @ js ''.'' @ sig'"
  have ne: "?t \<noteq> []" "?t' \<noteq> []" by (simp_all add: js_dot)
  have same: "decode_email rt ?t = decode_email rt ?t'"
    using decode_email_signature [OF assms(3,4), of rt sig sig'] by (simp add: js_dot)
  have dest: "map fst (fetch_calls (snd (handler rt env req))) \<in> {[], [CF_AI_GATEWAY_URL env]}"
    by (rule destinations)
  have both: "(fetch_calls (snd (handler rt env req)) = []) =
              (fetch_calls (snd (handler rt env req')) = [])"
  proof (cases "decode_email rt ?t")
    case (Inl e)
    with same have l: "decode_email rt ?t' = Inl e" by simp
    from handler_invalid [OF assms(1) ne(1) Inl] handler_invalid [OF assms(2) ne(2) l]
    show ?thesis by simp
  next
    case (Inr v)
    with same have r: "decode_email rt ?t' = Inr v" by simp
    show ?thesis
    proof (cases "outbound_ok rt env v")
      case True
      from fetch_calls_decoded [OF assms(1) ne(1) Inr True]
        fetch_calls_decoded [OF assms(2) ne(2) r True]
      show ?thesis by simp
    next
      case False
      from handler_headers_refused [OF assms(1) ne(1) Inr False]
        handler_headers_refused [OF assms(2) ne(2) r False]
      show ?thesis by simp
    qed
  qed
  have none: "fst (handler rt env req) =
                Json (JObj [(js ''error'', JStr (js ''Invalid or malformed token''))]) 401 \<and>
              fetch_calls (snd (handler rt env req)) = []"
    if "payload_email rt ?t = None"
  proof -
    from that obtain e where "decode_email rt ?t = Inl e"
      using not_decoded_iff [of rt ?t] by blast
    from handler_invalid [OF assms(1) ne(1) this] show ?thesis
      by (simp add: invalid_token_def)
  qed
  have some: "fst (handler rt env req) \<notin>
                {Json (JObj [(js ''error'', JStr (js ''Missing authentication token''))]) 401,
                 Json (JObj [(js ''error'', JStr (js ''Invalid or malformed token''))]) 401}"
    if "payload_email rt ?t = Some E"
  proof -
    from that have "decode_email rt ?t = Inr E" by (simp add: decode_email_iff)
    from reply_decoded [OF assms(1) ne(1) this, where env = env] show ?thesis
      by (auto simp: upstream_failed_def)
  qed
  from same both dest none some show ?thesis by blast
qed

theorem C1_signature_ignored_witness:
  "header alice_request (js ''cf-access-token'') =
     Some (js ''eyJhbGciOiJSUzI1NiJ9'' @ js ''.'' @
           js ''eyJlbWFpbCI6ImFsaWNlQGV4YW1wbGUuY29tIn0'' @ js ''.'' @ js ''Zm9yZ2Vk'') \<and>
   header resigned_request (js ''cf-access-token'') =
     Some (js ''eyJhbGciOiJSUzI1NiJ9'' @ js ''.'' @
           js ''eyJlbWFpbCI6ImFsaWNlQGV4YW1wbGUuY29tIn0'' @ js ''.'' @ js ''AAAA'') \<and>
   ch CHR ''.'' \<notin> set (js ''eyJhbGciOiJSUzI1NiJ9'') \<and>
   ch CHR ''.'' \<notin> set (js ''eyJlbWFpbCI6ImFsaWNlQGV4YW1wbGUuY29tIn0'') \<and>
   payload_email (platform only_gateway_up)
     (js ''eyJhbGciOiJSUzI1NiJ9'' @ js ''.'' @
      js ''eyJlbWFpbCI6ImFsaWNlQGV4YW1wbGUuY29tIn0'' @ js ''.'' @ js ''Zm9yZ2Vk'') =
     Some (JStr (js ''alice@example.com'')) \<and>
   fetch_calls (snd (handler (platform only_gateway_up) demo_env alice_request)) \<noteq> [] \<and>
   fetch_calls (snd (handler (platform only_gateway_up) demo_env resigned_request)) \<noteq> [] \<and>
   fst (handler (platform only_gateway_up) demo_env alice_request) \<notin>
     {Json (JObj [(js ''error'', JStr (js ''Missing authentication token''))]) 401,
      Json (JObj [(js ''error'', JStr (js ''Invalid or malformed token''))]) 401} \<and>
   header empty_email_request (js ''cf-access-token'') =
     Some (js ''eyJhbGciOiJSUzI1NiJ9'' @ js ''.'' @ js ''eyJlbWFpbCI6IiJ9'' @ js ''.'' @
           js ''c2ln'') \<and>
   ch CHR ''.'' \<notin> set (js ''eyJlbWFpbCI6IiJ9'') \<and>
   payload_email (platform only_gateway_up)
     (js ''eyJhbGciOiJSUzI1NiJ9'' @ js ''.'' @ js ''eyJlbWFpbCI6IiJ9'' @ js ''.'' @
      js ''c2ln'') = None \<and>
   fst (handler (platform only_gateway_up) demo_env empty_email_request) =
     Json (JObj [(js ''error'', JStr (js ''Invalid or malformed token''))]) 401 \<and>
   fetch_calls (snd (handler (platform only_gateway_up) demo_env empty_email_request)) = []"
proof -
  have x: "header empty_email_request (js ''cf-access-token'') =
     Some (js ''eyJhbGciOiJSUzI1NiJ9'' @ js ''.'' @ js ''eyJlbWFpbCI6IiJ9'' @ js ''.'' @
           js ''c2ln'')"
    using empty_email_header by (simp only: empty_email_parts)
  have y: "payload_email (platform only_gateway_up)
     (js ''eyJhbGciOiJSUzI1NiJ9'' @ js ''.'' @ js ''eyJlbWFpbCI6IiJ9'' @ js ''.'' @
      js ''c2ln'') = None"
    using empty_email_not_decoded [of only_gateway_up]
      not_decoded_iff [of "platform only_gateway_up" empty_email_token]
    by (simp only: empty_email_parts) blast
  have a: "header alice_request (js ''cf-access-token'') =
     Some (js ''eyJhbGciOiJSUzI1NiJ9'' @ js ''.'' @
           js ''eyJlbWFpbCI6ImFsaWNlQGV4YW1wbGUuY29tIn0'' @ js ''.'' @ js ''Zm9yZ2Vk'')"
    using alice_header by (simp only: alice_parts)
  have b: "header resigned_request (js ''cf-access-token'') =
     Some (js ''eyJhbGciOiJSUzI1NiJ9'' @ js ''.'' @
           js ''eyJlbWFpbCI6ImFsaWNlQGV4YW1wbGUuY29tIn0'' @ js ''.'' @ js ''AAAA'')"
    using resigned_header by (simp only: resigned_parts)
  have p: "payload_email (platform only_gateway_up)
     (js ''eyJhbGciOiJSUzI1NiJ9'' @ js ''.'' @
      js ''eyJlbWFpbCI6ImFsaWNlQGV4YW1wbGUuY29tIn0'' @ js ''.'' @ js ''Zm9yZ2Vk'') =
     Some (JStr (js ''alice@example.com''))"
    using alice_decoded [of only_gateway_up]
    by (simp only: alice_parts decode_email_iff)
  have e: "fetch_calls (snd (handler (platform only_gateway_up) demo_env alice_request)) \<noteq> []"
    by (simp add: alice_forwarded)
  from C1_signature_ignored [OF a b alice_head_no_dot alice_payload_no_dot,
      where rt = "platform only_gateway_up" and env = demo_env
        and E = "JStr (js ''alice@example.com'')"]
    C1_signature_ignored [OF x x alice_head_no_dot empty_payload_no_dot,
      where rt = "platform only_gateway_up" and env = demo_env
        and E = "JStr (js ''alice@example.com'')"]
    a b alice_head_no_dot alice_payload_no_dot p e x y empty_payload_no_dot
  show ?thesis by blast
qed

subsection \<open>The responses of the gate\<close>

text \<open>
  C4, as stated, fails twice. A token with an invalid signature (here: no signature at
  all, against an empty key set) is not answered 401 but forwarded. And the response
  does reveal which check failed between a missing token and a malformed one: the two
  bodies differ.
\<close>

theorem C4_counterexample:
  "header unsigned_request (js ''cf-access-token'') = Some unsigned_token \<and>
   \<not> spec_signature_accepted every_signature_matches [] unsigned_token \<and>
   reply_status (fst (handler (platform only_gateway_up) demo_env unsigned_request)) = 200 \<and>
   fst (handler (platform only_gateway_up) demo_env no_token_request) \<noteq>
     fst (handler (platform only_gateway_up) demo_env malformed_request)"
proof -
  have a: "reply_status (fst (handler (platform only_gateway_up) demo_env unsigned_request)) = 200"
    by (simp add: unsigned_answered ok_response_def)
  have b: "fst (handler (platform only_gateway_up) demo_env no_token_request) = missing_token"
    by (simp add: handler_missing no_token_header)
  have c: "fst (handler (platform only_gateway_up) demo_env malformed_request) = invalid_token"
    using handler_invalid [OF malformed_header malformed_nonempty malformed_not_decoded] by simp
  from a b c unsigned_header bodies_differ show ?thesis
    by (simp add: spec_signature_accepted_def missing_token_def invalid_token_def)
qed

text \<open>
  C4, amended: every response that the gate builds itself is one of the three
  documented ones, and a request that leads to no upstream call is answered with one
  of them: a 401, or the 502 when \<^verbatim>\<open>Headers.set\<close> refuses an outbound header value.
  A request without the header, or with the empty string as its value, is answered
  with 401 and the body \<^verbatim>\<open>{"error": "Missing authentication token"}\<close>. Every failure of
  the decoding of a non-empty token (malformed token, undecodable payload, missing
  identity claim) has the same response, 401 with the body
  \<^verbatim>\<open>{"error": "Invalid or malformed token"}\<close>, which does not tell these causes apart
  and which is not the response for a missing token. An invalid signature is not a
  failure cause, since the signature is not checked: when a token of three segments
  decodes with one signature segment, the request with any other signature segment
  is answered with neither of the two 401 responses.
\<close>

theorem C4_gate_responses:
  "(fst (handler rt env req) = Json body st \<longrightarrow>
      (body, st) \<in>
        {(JObj [(js ''error'', JStr (js ''Missing authentication token''))], 401),
         (JObj [(js ''error'', JStr (js ''Invalid or malformed token''))], 401),
         (JObj [(js ''error'', JStr (js ''Failed to connect to the upstream service''))], 502)}) \<and>
   (fetch_calls (snd (handler rt env req)) = [] \<longrightarrow>
      fst (handler rt env req) \<in>
        {Json (JObj [(js ''error'', JStr (js ''Missing authentication token''))]) 401,
         Json (JObj [(js ''error'', JStr (js ''Invalid or malformed token''))]) 401,
         Json (JObj [(js ''error'', JStr (js ''Failed to connect to the upstream service''))])
           502}) \<and>
   (header req (js ''cf-access-token'') = None \<or> header req (js ''cf-access-token'') = Some [] \<longrightarrow>
      fst (handler rt env req) =
        Json (JObj [(js ''error'', JStr (js ''Missing authentication token''))]) 401) \<and>
   (header req (js ''cf-access-token'') = Some token \<and> token \<noteq> [] \<and>
    decode_email rt token = Inl e \<longrightarrow>
      fst (handler rt env req) =
        Json (JObj [(js ''error'', JStr (js ''Invalid or malformed token''))]) 401 \<and>
      fst (handler rt env req) \<noteq>
        Json (JObj [(js ''error'', JStr (js ''Missing authentication token''))]) 401) \<and>
   (header req (js ''cf-access-token'') = Some (h @ js ''.'' @ p @ js ''.'' @ sig) \<and>
    ch CHR ''.'' \<notin> set h \<and> ch CHR ''.'' \<notin> set p \<and>
    decode_email rt (h @ js ''.'' @ p @ js ''.'' @ sig') = Inr E \<longrightarrow>
      fst (handler rt env req) \<notin>
        {Json (JObj [(js ''error'', JStr (js ''Missing authentication token''))]) 401,
         Json (JObj [(js ''error'', JStr (js ''Invalid or malformed token''))]) 401})"
proof (intro conjI impI)
  assume "fst (handler rt env req) = Json body st"
  from gate_replies [OF this]
  show "(body, st) \<in>
        {(JObj [(js ''error'', JStr (js ''Missing authentication token''))], 401),
         (JObj [(js ''error'', JStr (js ''Invalid or malformed token''))], 401),
         (JObj [(js ''error'', JStr (js ''Failed to connect to the upstream service''))], 502)}"
    by (auto simp: missing_token_def invalid_token_def upstream_failed_def)
next
  assume "fetch_calls (snd (handler rt env req)) = []"
  from not_forwarded_replies [OF this]
  show "fst (handler rt env req) \<in>
        {Json (JObj [(js ''error'', JStr (js ''Missing authentication token''))]) 401,
         Json (JObj [(js ''error'', JStr (js ''Invalid or malformed token''))]) 401,
         Json (JObj [(js ''error'', JStr (js ''Failed to connect to the upstream service''))])
           502}"
    by (simp add: missing_token_def invalid_token_def upstream_failed_def)
next
  assume "header req (js ''cf-access-token'') = None \<or>
          header req (js ''cf-access-token'') = Some []"
  from handler_missing [OF this]
  show "fst (handler rt env req) =
          Json (JObj [(js ''error'', JStr (js ''Missing authentication token''))]) 401"
    by (simp add: missing_token_def)
next
  assume a: "header req (js ''cf-access-token'') = Some token \<and> token \<noteq> [] \<and>
             decode_email rt token = Inl e"
  then have "header req (js ''cf-access-token'') = Some token" and "token \<noteq> []"
    and "decode_email rt token = Inl e"
    by simp_all
  from handler_invalid [OF this] have i: "fst (handler rt env req) = invalid_token"
    by simp
  then show "fst (handler rt env req) =
          Json (JObj [(js ''error'', JStr (js ''Invalid or malformed token''))]) 401"
    by (simp add: invalid_token_def)
  from i bodies_differ
  show "fst (handler rt env req) \<noteq>
          Json (JObj [(js ''error'', JStr (js ''Missing authentication token''))]) 401"
    by (simp add: invalid_token_def)
next
  assume a: "header req (js ''cf-access-token'') = Some (h @ js ''.'' @ p @ js ''.'' @ sig) \<and>
             ch CHR ''.'' \<notin> set h \<and> ch CHR ''.'' \<notin> set p \<and>
             decode_email rt (h @ js ''.'' @ p @ js ''.'' @ sig') = Inr E"
  then have hd: "header req (js ''cf-access-token'') = Some (h @ js ''.'' @ p @ js ''.'' @ sig)"
    and h: "ch CHR ''.'' \<notin> set h" and p: "ch CHR ''.'' \<notin> set p"
    and d': "decode_email rt (h @ js ''.'' @ p @ js ''.'' @ sig') = Inr E"
    by simp_all
  have ne: "h @ js ''.'' @ p @ js ''.'' @ sig \<noteq> []" by (simp add: js_dot)
  have d: "decode_email rt (h @ js ''.'' @ p @ js ''.'' @ sig) = Inr E"
    using decode_email_signature [OF h p, of rt sig sig'] d' by (simp add: js_dot)
  from reply_decoded [OF hd ne d, where env = env]
  show "fst (handler rt env req) \<notin>
        {Json (JObj [(js ''error'', JStr (js ''Missing authentication token''))]) 401,
         Json (JObj [(js ''error'', JStr (js ''Invalid or malformed token''))]) 401}"
    by (auto simp: upstream_failed_def)
qed

theorem C4_gate_responses_witness:
  "header malformed_request (js ''cf-access-token'') = Some (js ''not-a-jwt'') \<and>
   js ''not-a-jwt'' \<noteq> [] \<and>
   decode_email (platform only_gateway_up) (js ''not-a-jwt'') =
     Inl (Error_obj (js ''Error'') (js ''Invalid JWT structure'')) \<and>
   fst (handler (platform only_gateway_up) demo_env malformed_request) =
     Json (JObj [(js ''error'', JStr (js ''Invalid or malformed token''))]) 401 \<and>
   fst (handler (platform only_gateway_up) demo_env malformed_request) \<noteq>
     Json (JObj [(js ''error'', JStr (js ''Missing authentication token''))]) 401 \<and>
   (JObj [(js ''error'', JStr (js ''Invalid or malformed token''))], 401::nat) \<in>
     {(JObj [(js ''error'', JStr (js ''Missing authentication token''))], 401),
      (JObj [(js ''error'', JStr (js ''Invalid or malformed token''))], 401),
      (JObj [(js ''error'', JStr (js ''Failed to connect to the upstream service''))], 502)} \<and>
   fetch_calls (snd (handler (platform only_gateway_up) demo_env malformed_request)) = [] \<and>
   fst (handler (platform only_gateway_up) demo_env malformed_request) \<in>
     {Json (JObj [(js ''error'', JStr (js ''Missing authentication token''))]) 401,
      Json (JObj [(js ''error'', JStr (js ''Invalid or malformed token''))]) 401,
      Json (JObj [(js ''error'', JStr (js ''Failed to connect to the upstream service''))]) 502} \<and>
   header no_token_request (js ''cf-access-token'') = None \<and>
   fst (handler (platform only_gateway_up) demo_env no_token_request) =
     Json (JObj [(js ''error'', JStr (js ''Missing authentication token''))]) 401 \<and>
   header alice_request (js ''cf-access-token'') =
     Some (js ''eyJhbGciOiJSUzI1NiJ9'' @ js ''.'' @
           js ''eyJlbWFpbCI6ImFsaWNlQGV4YW1wbGUuY29tIn0'' @ js ''.'' @ js ''Zm9yZ2Vk'') \<and>
   ch CHR ''.'' \<notin> set (js ''eyJhbGciOiJSUzI1NiJ9'') \<and>
   ch CHR ''.'' \<notin> set (js ''eyJlbWFpbCI6ImFsaWNlQGV4YW1wbGUuY29tIn0'') \<and>
   decode_email (platform only_gateway_up)
     (js ''eyJhbGciOiJSUzI1NiJ9'' @ js ''.'' @
      js ''eyJlbWFpbCI6ImFsaWNlQGV4YW1wbGUuY29tIn0'' @ js ''.'' @ js ''AAAA'') =
     Inr (JStr (js ''alice@example.com'')) \<and>
   fst (handler (platform only_gateway_up) demo_env alice_request) \<notin>
     {Json (JObj [(js ''error'', JStr (js ''Missing authentication token''))]) 401,
      Json (JObj [(js ''error'', JStr (js ''Invalid or malformed token''))]) 401}"
proof -
  note malformed = C4_gate_responses [where rt = "platform only_gateway_up" and env = demo_env
      and req = malformed_request
      and body = "JObj [(js ''error'', JStr (js ''Invalid or malformed token''))]" and st = 401
      and token = "js ''not-a-jwt''"
      and e = "Error_obj (js ''Error'') (js ''Invalid JWT structure'')"]
  note no_token = C4_gate_responses [where rt = "platform only_gateway_up" and env = demo_env
      and req = no_token_request]
  note alice = C4_gate_responses [where rt = "platform only_gateway_up" and env = demo_env
      and req = alice_request
      and h = "js ''eyJhbGciOiJSUzI1NiJ9''"
      and p = "js ''eyJlbWFpbCI6ImFsaWNlQGV4YW1wbGUuY29tIn0''"
      and sig = "js ''Zm9yZ2Vk''" and sig' = "js ''AAAA''"
      and E = "JStr (js ''alice@example.com'')"]
  have d: "decode_email (platform only_gateway_up) (js ''not-a-jwt'') =
     Inl (Error_obj (js ''Error'') (js ''Invalid JWT structure''))"
    by (rule malformed_not_decoded)
  note m = malformed [THEN conjunct2, THEN conjunct2, THEN conjunct2, THEN conjunct1, THEN mp,
      OF conjI [OF malformed_header conjI [OF malformed_nonempty d]]]
  have 1: "fst (handler (platform only_gateway_up) demo_env malformed_request) =
     Json (JObj [(js ''error'', JStr (js ''Invalid or malformed token''))]) 401"
    by (rule m [THEN conjunct1])
  have 2: "fst (handler (platform only_gateway_up) demo_env malformed_request) \<noteq>
     Json (JObj [(js ''error'', JStr (js ''Missing authentication token''))]) 401"
    by (rule m [THEN conjunct2])
  have 3: "(JObj [(js ''error'', JStr (js ''Invalid or malformed token''))], 401::nat) \<in>
     {(JObj [(js ''error'', JStr (js ''Missing authentication token''))], 401),
      (JObj [(js ''error'', JStr (js ''Invalid or malformed token''))], 401),
      (JObj [(js ''error'', JStr (js ''Failed to connect to the upstream service''))], 502)}"
    by (rule malformed [THEN conjunct1, THEN mp, OF 1])
  have f: "fetch_calls (snd (handler (platform only_gateway_up) demo_env malformed_request)) = []"
    using handler_invalid [OF malformed_header malformed_nonempty malformed_not_decoded] by simp
  have 4: "fst (handler (platform only_gateway_up) demo_env malformed_request) \<in>
     {Json (JObj [(js ''error'', JStr (js ''Missing authentication token''))]) 401,
      Json (JObj [(js ''error'', JStr (js ''Invalid or malformed token''))]) 401,
      Json (JObj [(js ''error'', JStr (js ''Failed to connect to the upstream service''))]) 502}"
    by (rule malformed [THEN conjunct2, THEN conjunct1, THEN mp, OF f])
  have 5: "fst (handler (platform only_gateway_up) demo_env no_token_request) =
     Json (JObj [(js ''error'', JStr (js ''Missing authentication token''))]) 401"
    by (rule no_token [THEN conjunct2, THEN conjunct2, THEN conjunct1, THEN mp,
          OF disjI1 [OF no_token_header]])
  have a: "header alice_request (js ''cf-access-token'') =
     Some (js ''eyJhbGciOiJSUzI1NiJ9'' @ js ''.'' @
           js ''eyJlbWFpbCI6ImFsaWNlQGV4YW1wbGUuY29tIn0'' @ js ''.'' @ js ''Zm9yZ2Vk'')"
    using alice_header by (simp only: alice_parts)
  have r: "decode_email (platform only_gateway_up)
     (js ''eyJhbGciOiJSUzI1NiJ9'' @ js ''.'' @
      js ''eyJlbWFpbCI6ImFsaWNlQGV4YW1wbGUuY29tIn0'' @ js ''.'' @ js ''AAAA'') =
     Inr (JStr (js ''alice@example.com''))"
    using resigned_decoded [of only_gateway_up] by (simp only: resigned_parts)
  have 6: "fst (handler (platform only_gateway_up) demo_env alice_request) \<notin>
     {Json (JObj [(js ''error'', JStr (js ''Missing authentication token''))]) 401,
      Json (JObj [(js ''error'', JStr (js ''Invalid or malformed token''))]) 401}"
    by (rule alice [THEN conjunct2, THEN conjunct2, THEN conjunct2, THEN conjunct2, THEN mp,
          OF conjI [OF a conjI [OF alice_head_no_dot conjI [OF alice_payload_no_dot r]]]])
  show ?thesis
    by (intro conjI)
       (rule malformed_header malformed_nonempty d 1 2 3 f 4 no_token_header 5 a
          alice_head_no_dot alice_payload_no_dot r 6)+
qed

subsection \<open>No key-set fetch, no retry\<close>

text \<open>
  C7, as stated, fails: on a network where the key-set endpoint fails on every attempt
  (only the upstream answers), a request with a decodable token is not answered 401:
  it is forwarded and the upstream's 200 is returned, and no call to the key-set
  endpoint is among the effects.
\<close>

theorem C7_counterexample:
  "fetch (platform only_gateway_up) certs_url get_init = Inl network_error \<and>
   reply_status (fst (handler (platform only_gateway_up) demo_env resigned_request)) = 200 \<and>
   map fst (fetch_calls (snd (handler (platform only_gateway_up) demo_env resigned_request))) =
     [CF_AI_GATEWAY_URL demo_env] \<and>
   calls_to certs_url (snd (handler (platform only_gateway_up) demo_env resigned_request)) = 0"
proof -
  have "fetch (platform only_gateway_up) certs_url get_init = Inl network_error"
    using certs_url_other by (simp add: platform_def only_gateway_up_def)
  moreover have
    "calls_to certs_url (snd (handler (platform only_gateway_up) demo_env resigned_request)) = 0"
    by (rule no_other_calls [OF certs_url_other])
  ultimately show ?thesis
    by (simp add: resigned_answered ok_response_def)
qed

text \<open>
  C7, amended: the gate makes no key-set fetch, so there is nothing to retry and nothing
  to wait for. Every call of a run goes to the configured upstream URL, so a run makes
  no call to a key-set endpoint, whose URL is another one; a request whose token
  decodes, and whose outbound header values \<^verbatim>\<open>Headers.set\<close> takes, leads to exactly one
  call, to the upstream URL. Two platforms that agree on \<^verbatim>\<open>atob\<close>, \<^verbatim>\<open>JSON.parse\<close>,
  \<^verbatim>\<open>JSON.stringify\<close> and on the answers of the upstream URL give the same run,
  whatever any other endpoint, a key-set endpoint included, answers on any attempt:
  a failing key-set endpoint never causes a 401.
\<close>

theorem C7_no_key_set_fetch:
  assumes "atob rt' = atob rt" and "JSON_parse rt' = JSON_parse rt"
    and "JSON_stringify rt' = JSON_stringify rt"
    and "\<forall>init. fetch rt' (CF_AI_GATEWAY_URL env) init = fetch rt (CF_AI_GATEWAY_URL env) init"
  shows "handler rt' env req = handler rt env req \<and>
         map fst (fetch_calls (snd (handler rt env req))) \<in> {[], [CF_AI_GATEWAY_URL env]} \<and>
         (key_set_url \<noteq> CF_AI_GATEWAY_URL env \<longrightarrow>
            calls_to key_set_url (snd (handler rt env req)) = 0) \<and>
         (header req (js ''cf-access-token'') = Some token \<and> token \<noteq> [] \<and>
          decode_email rt token = Inr E \<and> outbound_ok rt env E \<longrightarrow>
            map fst (fetch_calls (snd (handler rt env req))) = [CF_AI_GATEWAY_URL env])"
proof (intro conjI impI)
  have d: "decode_email rt' t = decode_email rt t" for t
    by (rule decode_email_cong [OF assms(1,2)])
  have h: "forward_headers rt' env hs v = forward_headers rt env hs v" for hs v
    by (simp add: forward_headers_eq outbound_ok_def metadata_value_def assms(3))
  have p: "proxy_request rt' env req v = proxy_request rt env req v" for v
    by (simp add: proxy_request_def h assms(4) Let_def cong: sum.case_cong)
  show "handler rt' env req = handler rt env req"
    by (simp add: handler_def d p Let_def cong: option.case_cong sum.case_cong if_cong)
  show "map fst (fetch_calls (snd (handler rt env req))) \<in> {[], [CF_AI_GATEWAY_URL env]}"
    by (rule destinations)
next
  assume "key_set_url \<noteq> CF_AI_GATEWAY_URL env"
  then show "calls_to key_set_url (snd (handler rt env req)) = 0"
    by (rule no_other_calls)
next
  assume "header req (js ''cf-access-token'') = Some token \<and> token \<noteq> [] \<and>
          decode_email rt token = Inr E \<and> outbound_ok rt env E"
  then show "map fst (fetch_calls (snd (handler rt env req))) = [CF_AI_GATEWAY_URL env]"
    by (simp add: fetch_calls_decoded)
qed

theorem C7_no_key_set_fetch_witness:
  "atob (platform all_up) = atob (platform only_gateway_up) \<and>
   JSON_parse (platform all_up) = JSON_parse (platform only_gateway_up) \<and>
   JSON_stringify (platform all_up) = JSON_stringify (platform only_gateway_up) \<and>
   (\<forall>init. fetch (platform all_up) (CF_AI_GATEWAY_URL demo_env) init =
            fetch (platform only_gateway_up) (CF_AI_GATEWAY_URL demo_env) init) \<and>
   fetch (platform all_up) certs_url get_init \<noteq> fetch (platform only_gateway_up) certs_url get_init \<and>
   handler (platform all_up) demo_env alice_request =
     handler (platform only_gateway_up) demo_env alice_request \<and>
   certs_url \<noteq> CF_AI_GATEWAY_URL demo_env \<and>
   calls_to certs_url (snd (handler (platform only_gateway_up) demo_env alice_request)) = 0 \<and>
   header alice_request (js ''cf-access-token'') = Some alice_token \<and> alice_token \<noteq> [] \<and>
   decode_email (platform only_gateway_up) alice_token = Inr (JStr (js ''alice@example.com'')) \<and>
   outbound_ok (platform only_gateway_up) demo_env (JStr (js ''alice@example.com'')) \<and>
   map fst (fetch_calls (snd (handler (platform only_gateway_up) demo_env alice_request))) =
     [CF_AI_GATEWAY_URL demo_env]"
proof -
  have a: "atob (platform all_up) = atob (platform only_gateway_up)"
    and b: "JSON_parse (platform all_up) = JSON_parse (platform only_gateway_up)"
    and c: "JSON_stringify (platform all_up) = JSON_stringify (platform only_gateway_up)"
    by (simp_all add: platform_def)
  have d: "\<forall>init. fetch (platform all_up) (CF_AI_GATEWAY_URL demo_env) init =
            fetch (platform only_gateway_up) (CF_AI_GATEWAY_URL demo_env) init"
    by (simp add: platform_def all_up_def only_gateway_up_def)
  have e: "fetch (platform all_up) certs_url get_init \<noteq>
           fetch (platform only_gateway_up) certs_url get_init"
    using certs_url_other by (simp add: platform_def all_up_def only_gateway_up_def)
  have ok: "outbound_ok (platform only_gateway_up) demo_env (JStr (js ''alice@example.com''))"
    by (rule alice_ok)
  from C7_no_key_set_fetch [OF a b c d, where req = alice_request
      and key_set_url = certs_url and token = alice_token
      and E = "JStr (js ''alice@example.com'')"]
    a b c d e certs_url_other alice_header alice_token_nonempty
    alice_decoded [of only_gateway_up] ok
  show ?thesis by blast
qed

subsection \<open>No key-set cache\<close>




end
